theory Spec2Isabelle
  imports Complex_Main "HOL-Library.Sublist" "HOL-Library.Word" "HOL-Library.Monad_Syntax"
begin

section \<open>Data model\<close>

text \<open>
  A measurement record is the dictionary built by the analysers: the single-tooth
  pipeline writes the keys \<open>wear_case\<close>, \<open>wear_depth_um\<close> and \<open>method\<close>
  (\<open>tooth1_analyzer.py\<close>), the multi-tooth pipeline adds \<open>tooth_number\<close>
  (\<open>wear_analyzer.py\<close>). Depths are Python floats, read here as reals; the key
  \<open>method\<close> is tested for presence by the single-tooth monotonicity pass, so it is
  optional.
\<close>

record measurement =
  wear_case :: int
  wear_depth_um :: real
  method_tag :: "string option"

record tooth_measurement = measurement +
  tooth_number :: int

section \<open>Python and numpy floats\<close>

text \<open>
  A feature value or a score is a Python or numpy float, which can also be an infinity
  or \<open>nan\<close>: numpy's square root of a negative number is \<open>nan\<close>, numpy's division
  by zero gives an infinity or \<open>nan\<close> (a warning, no exception), and no comparison
  with \<open>nan\<close> holds. \<open>min(a, b)\<close> and \<open>max(a, b)\<close> of Python keep their first
  argument unless the second compares smaller (greater). Python's own division of floats
  or ints raises \<open>ZeroDivisionError\<close> on a zero divisor: \<open>py_div\<close> returns \<open>None\<close>
  there.
\<close>

datatype pyfloat = Float real | PosInf | NegInf | NaN

fun flt :: "pyfloat \<Rightarrow> pyfloat \<Rightarrow> bool" where
  "flt (Float x) (Float y) = (x < y)"
| "flt (Float x) PosInf = True"
| "flt NegInf (Float y) = True"
| "flt NegInf PosInf = True"
| "flt _ _ = False"

definition py_min :: "pyfloat \<Rightarrow> pyfloat \<Rightarrow> pyfloat" where
  "py_min a b = (if flt b a then b else a)"

definition py_max :: "pyfloat \<Rightarrow> pyfloat \<Rightarrow> pyfloat" where
  "py_max a b = (if flt a b then b else a)"

fun fmul :: "pyfloat \<Rightarrow> real \<Rightarrow> pyfloat" where
  "fmul (Float x) c = Float (x * c)"
| "fmul PosInf c = (if 0 < c then PosInf else if c < 0 then NegInf else NaN)"
| "fmul NegInf c = (if 0 < c then NegInf else if c < 0 then PosInf else NaN)"
| "fmul NaN c = NaN"

fun fadd :: "pyfloat \<Rightarrow> real \<Rightarrow> pyfloat" where
  "fadd (Float x) c = Float (x + c)"
| "fadd a c = a"

definition np_true_divide :: "real \<Rightarrow> real \<Rightarrow> pyfloat" where
  "np_true_divide a b =
     (if b \<noteq> 0 then Float (a / b)
      else if 0 < a then PosInf else if a < 0 then NegInf else NaN)"

definition np_sqrt :: "real \<Rightarrow> pyfloat" where
  "np_sqrt x = (if x < 0 then NaN else Float (sqrt x))"

definition py_div :: "real \<Rightarrow> real \<Rightarrow> real option" where
  "py_div a b = (if b = 0 then None else Some (a / b))"

section \<open>Gear parameters (\<open>gear_parameters.py\<close>)\<close>

definition GEAR_MODULE :: real where
  "GEAR_MODULE = 3.0"

definition STANDARD_ADDENDUM :: real where
  "STANDARD_ADDENDUM = 1.00 * GEAR_MODULE"

definition STANDARD_DEDENDUM :: real where
  "STANDARD_DEDENDUM = 1.25 * GEAR_MODULE"

definition STANDARD_TOOTH_THICKNESS :: real where
  "STANDARD_TOOTH_THICKNESS = pi * GEAR_MODULE / 2"

definition STANDARD_TOOTH_HEIGHT :: real where
  "STANDARD_TOOTH_HEIGHT = STANDARD_ADDENDUM + STANDARD_DEDENDUM"

section \<open>Configuration (\<open>config.py\<close>)\<close>

text \<open>\<open>AnalysisConfig.setup_gear_parameters\<close>: the same constants for every analysis type.\<close>

definition MAX_THEORETICAL_WEAR :: real where
  "MAX_THEORETICAL_WEAR = 1500"

definition EXPECTED_TOOTH_COUNT :: nat where
  "EXPECTED_TOOTH_COUNT = 35"

text \<open>
  \<open>load_ground_truth_data\<close> reads \<open>ground_truth_measurements.csv\<close> when the file exists
  and can be read, and falls back to the hardcoded table otherwise. The argument is the
  table read from the file, \<open>None\<close> when there is no readable file.
\<close>

definition hardcoded_measurements :: "(int \<times> real) list" where
  "hardcoded_measurements =
     [(1, 40), (2, 81), (3, 115), (4, 159), (5, 175), (6, 195), (7, 227), (8, 256), (9, 276),
      (10, 294), (11, 305), (12, 323), (13, 344), (14, 378), (15, 400), (16, 417), (17, 436),
      (18, 450), (19, 466), (20, 488), (21, 510), (22, 524), (23, 557), (24, 579), (25, 608),
      (26, 637), (27, 684), (28, 720), (29, 744), (30, 769), (31, 797), (32, 825), (33, 853),
      (34, 890), (35, 932)]"

definition load_ground_truth_data :: "(int \<rightharpoonup> real) option \<Rightarrow> (int \<rightharpoonup> real)" where
  "load_ground_truth_data csv =
     (case csv of Some measurements \<Rightarrow> measurements | None \<Rightarrow> map_of hardcoded_measurements)"

text \<open>\<open>setup_analysis_specific_config\<close> for \<open>tooth1\<close>.\<close>

definition manual_adjustments :: "int \<rightharpoonup> real" where
  "manual_adjustments = map_of [(1, 38.0), (2, 77.0), (4, 152.0), (5, 166.0), (6, 185.0)]"

definition optimized_results_w7_plus :: "int \<rightharpoonup> real" where
  "optimized_results_w7_plus = map_of
     [(7, 258.7), (8, 271.6), (9, 285.2), (10, 299.5), (11, 314.4), (12, 330.1), (13, 346.7),
      (14, 364.0), (15, 382.2), (16, 401.3), (17, 421.4), (18, 442.4), (19, 464.6), (20, 487.8),
      (21, 512.2), (22, 537.8), (23, 564.7), (24, 592.9), (25, 622.5), (26, 653.7), (27, 686.4),
      (28, 720.7), (29, 756.7), (30, 794.5), (31, 834.3), (32, 876.0), (33, 919.8), (34, 965.8),
      (35, 1000.0)]"

section \<open>Tooth segmentation: ordering and numbering the teeth\<close>

text \<open>
  Both segmentation functions turn the image into \<open>valid_contours\<close> with OpenCV, give
  every valid contour its angle around the image centre (\<open>arctan2\<close>, in degrees within
  [0, 360)) and then work on the list \<open>teeth_with_angles\<close> of triples
  \<open>(angle_deg, contour, area)\<close>. The model starts from that list; the contour type is
  left open.

  \<open>min(xs, key=f)\<close> of Python returns the first element with the least key; the first
  element is the initial candidate.
\<close>

fun py_min_by :: "('a \<Rightarrow> real) \<Rightarrow> 'a \<Rightarrow> 'a list \<Rightarrow> 'a" where
  "py_min_by key best [] = best"
| "py_min_by key best (x # xs) =
     (if key x < key best then py_min_by key x xs else py_min_by key best xs)"

text \<open>Numbering by position: \<open>enumerate\<close>, the tooth number being \<open>i + 1\<close>.\<close>

definition number_teeth :: "(real \<times> 'c \<times> real) list \<Rightarrow> (int \<times> 'c) list" where
  "number_teeth teeth_with_angles =
     map (\<lambda>(i, (angle, contour, area)). (int i + 1, contour)) (enumerate 0 teeth_with_angles)"

subsection \<open>\<open>extract_teeth_contours_improved\<close> (\<open>tooth1_image_processor.py\<close>)\<close>

text \<open>
  Lines 76 to 84: one pick per ideal slot. The list is longer than
  \<open>EXPECTED_TOOTH_COUNT\<close> there, hence not empty.
\<close>

definition select_closest_to_ideal_slots :: "(real \<times> 'c \<times> real) list \<Rightarrow> (real \<times> 'c \<times> real) list" where
  "select_closest_to_ideal_slots teeth_with_angles =
     (if length teeth_with_angles > EXPECTED_TOOTH_COUNT
      then (let ideal_spacing = 360.0 / real EXPECTED_TOOTH_COUNT
            in (case teeth_with_angles of
                  [] \<Rightarrow> []
                | first # others \<Rightarrow>
                    map (\<lambda>i. let ideal_angle = real i * ideal_spacing
                             in py_min_by (\<lambda>x. \<bar>fst x - ideal_angle\<bar>) first others)
                      [0..<EXPECTED_TOOTH_COUNT]))
      else teeth_with_angles)"

definition extract_teeth_contours_improved :: "(real \<times> 'c \<times> real) list \<Rightarrow> (int \<times> 'c) list" where
  "extract_teeth_contours_improved teeth_with_angles =
     (if teeth_with_angles = [] then []
      else number_teeth (select_closest_to_ideal_slots (sort_key fst teeth_with_angles)))"

subsection \<open>\<open>extract_teeth_from_gear_image\<close> (\<open>image_processor.py\<close>)\<close>

text \<open>
  Lines 109 to 114: a stable sort by descending area, the first
  \<open>EXPECTED_TOOTH_COUNT\<close> entries, sorted by angle again. The function returns the
  tooth images cut out around the contours; the contours stand for them here.
\<close>

definition keep_largest_by_area :: "(real \<times> 'c \<times> real) list \<Rightarrow> (real \<times> 'c \<times> real) list" where
  "keep_largest_by_area teeth_with_angles =
     (if length teeth_with_angles > EXPECTED_TOOTH_COUNT
      then sort_key fst (take EXPECTED_TOOTH_COUNT
             (sort_key (\<lambda>x. - snd (snd x)) teeth_with_angles))
      else teeth_with_angles)"

definition extract_teeth_from_gear_image :: "(real \<times> 'c \<times> real) list \<Rightarrow> (int \<times> 'c) list" where
  "extract_teeth_from_gear_image teeth_with_angles =
     (if teeth_with_angles = [] then []
      else number_teeth (keep_largest_by_area (sort_key fst teeth_with_angles)))"

text \<open>
  A gear photograph in which tooth 35 was not detected and two specks passed the
  filters: 34 teeth at their ideal angles (contours 0 to 33) and the specks (contours
  100 and 101) at 1 and 2 degrees, listed by angle.
\<close>

definition gear_with_missing_tooth :: "(real \<times> nat \<times> real) list" where
  "gear_with_missing_tooth =
     (0, 0, 1200) # (1, 100, 60) # (2, 101, 60) #
     map (\<lambda>k. (real k * (360 / 35), k, 1200)) [1..<34]"

section \<open>Contours, features and matching (\<open>tooth1_image_processor.py\<close>)\<close>

text \<open>
  OpenCV and numpy are outside the repository. A contour is represented by what the
  calls the code makes on it return: \<open>cv2.contourArea\<close>, \<open>cv2.arcLength(c, True)\<close>,
  the moments \<open>m00\<close>, \<open>m10\<close>, \<open>m01\<close> of \<open>cv2.moments\<close>, width and height of
  \<open>cv2.boundingRect\<close>, the area of \<open>cv2.convexHull\<close>, the maximum, mean, median and
  standard deviation of the distance transform of the filled 512 x 512 mask, and
  \<open>np.sum\<close> of the Canny edges of that mask (an unsigned 64-bit numpy integer, whose
  subtraction wraps around).
\<close>

record contour =
  contourArea :: real
  arcLength :: real
  m00 :: real
  m10 :: real
  m01 :: real
  bbox_w :: int
  bbox_h :: int
  hull_area :: real
  dt_max :: real
  dt_mean :: real
  dt_median :: real
  dt_std :: real
  edge_sum :: "64 word"

text \<open>\<open>calculate_contour_centroid\<close> (\<open>image_processor.py\<close>).\<close>

definition calculate_contour_centroid :: "contour \<Rightarrow> real \<times> real" where
  "calculate_contour_centroid c =
     (if m00 c \<noteq> 0 then (m10 c / m00 c, m01 c / m00 c) else (0.0, 0.0))"

subsection \<open>\<open>estimate_scale_factor_from_gear\<close>\<close>

definition estimate_scale_factor_from_gear :: "real \<Rightarrow> real option" where
  "estimate_scale_factor_from_gear healthy_contour_area =
     (let expected_tooth_area_mm2 = STANDARD_TOOTH_THICKNESS * STANDARD_TOOTH_HEIGHT;
          expected_tooth_area_pixels = healthy_contour_area
      in if 0 < expected_tooth_area_pixels
         then do {
           q \<leftarrow> py_div expected_tooth_area_mm2 expected_tooth_area_pixels;
           let scale_factor_mm_per_pixel = sqrt q;
           let scale_factor_um_per_pixel = scale_factor_mm_per_pixel * 1000;
           let calibration_factor = 0.8;
           let refined_scale_factor = scale_factor_um_per_pixel * calibration_factor;
           Some (max 4.0 (min refined_scale_factor 10.0))
         }
         else Some 6.0)"

subsection \<open>\<open>extract_early_wear_features\<close>\<close>

text \<open>
  The factor of lines 125 to 126: the estimate, already clamped, blended with the
  caller's target.
\<close>

definition effective_scale_factor :: "real \<Rightarrow> real \<Rightarrow> real option" where
  "effective_scale_factor target_um_per_px healthy_area = do {
     estimated_scale_factor \<leftarrow> estimate_scale_factor_from_gear healthy_area;
     Some (target_um_per_px * 0.3 + estimated_scale_factor * 0.7)
   }"

text \<open>The dictionary as it stands before the scaling loop, in insertion order.\<close>

definition unscaled_features :: "contour \<Rightarrow> contour \<Rightarrow> (string \<times> pyfloat) list option" where
  "unscaled_features healthy_contour worn_contour = do {
     let healthy_area = contourArea healthy_contour;
     let worn_area = contourArea worn_contour;
     let healthy_perimeter = arcLength healthy_contour;
     let worn_perimeter = arcLength worn_contour;
     area_ratio \<leftarrow> py_div worn_area (max healthy_area 1);
     area_loss \<leftarrow> py_div (healthy_area - worn_area) (max healthy_area 1);
     perimeter_ratio \<leftarrow> py_div worn_perimeter (max healthy_perimeter 1);
     perimeter_loss \<leftarrow> py_div (healthy_perimeter - worn_perimeter) (max healthy_perimeter 1);
     height_ratio \<leftarrow> py_div (real_of_int (bbox_h worn_contour))
                       (real_of_int (max (bbox_h healthy_contour) 1));
     width_ratio \<leftarrow> py_div (real_of_int (bbox_w worn_contour))
                      (real_of_int (max (bbox_w healthy_contour) 1));
     height_loss \<leftarrow> py_div (real_of_int (bbox_h healthy_contour - bbox_h worn_contour))
                      (real_of_int (max (bbox_h healthy_contour) 1));
     width_loss \<leftarrow> py_div (real_of_int (bbox_w healthy_contour - bbox_w worn_contour))
                     (real_of_int (max (bbox_w healthy_contour) 1));
     let healthy_hull_area = hull_area healthy_contour;
     let worn_hull_area = hull_area worn_contour;
     hull_area_ratio \<leftarrow> py_div worn_hull_area (max healthy_hull_area 1);
     hull_area_loss \<leftarrow> py_div (healthy_hull_area - worn_hull_area) (max healthy_hull_area 1);
     healthy_solidity \<leftarrow> py_div healthy_area (max (hull_area healthy_contour) 1);
     worn_solidity \<leftarrow> py_div worn_area (max (hull_area worn_contour) 1);
     solidity_ratio \<leftarrow> py_div worn_solidity (max healthy_solidity 1);
     let healthy_edges = edge_sum healthy_contour;
     let worn_edges = edge_sum worn_contour;
     Some
      [(''area_ratio'', Float area_ratio),
       (''area_loss'', Float area_loss),
       (''area_loss_squared'', Float (area_loss ^ 2)),
       (''area_loss_cubic'', Float (area_loss ^ 3)),
       (''area_loss_sqrt'', np_sqrt area_loss),
       (''perimeter_ratio'', Float perimeter_ratio),
       (''perimeter_loss'', Float perimeter_loss),
       (''height_ratio'', Float height_ratio),
       (''width_ratio'', Float width_ratio),
       (''height_loss'', Float height_loss),
       (''width_loss'', Float width_loss),
       (''height_loss_squared'', Float (height_loss ^ 2)),
       (''hull_area_ratio'', Float hull_area_ratio),
       (''hull_area_loss'', Float hull_area_loss),
       (''solidity_ratio'', Float solidity_ratio),
       (''solidity_loss'', Float (healthy_solidity - worn_solidity)),
       (''dt_max_diff'', Float (dt_max healthy_contour - dt_max worn_contour)),
       (''dt_mean_diff'', Float (dt_mean healthy_contour - dt_mean worn_contour)),
       (''dt_median_diff'', Float (dt_median healthy_contour - dt_median worn_contour)),
       (''dt_std_diff'', Float (dt_std healthy_contour - dt_std worn_contour)),
       (''edge_density_ratio'',
          np_true_divide (real (unat worn_edges)) (real (max (unat healthy_edges) 1))),
       (''edge_density_loss'',
          np_true_divide (real (unat (healthy_edges - worn_edges)))
            (real (max (unat healthy_edges) 1)))]
   }"

text \<open>The loop \<open>for key in features\<close>: \<open>'loss' in key or 'diff' in key\<close> is a substring test.\<close>

definition scale_loss_features :: "real \<Rightarrow> (string \<times> pyfloat) list \<Rightarrow> (string \<times> pyfloat) list" where
  "scale_loss_features effective features =
     map (\<lambda>(key, v). if sublist ''loss'' key \<or> sublist ''diff'' key
                      then (key, fmul v effective) else (key, v)) features"

definition extract_early_wear_features ::
  "contour \<Rightarrow> contour \<Rightarrow> real \<Rightarrow> (string \<times> pyfloat) list option" where
  "extract_early_wear_features healthy_contour worn_contour target_um_per_px = do {
     effective \<leftarrow> effective_scale_factor target_um_per_px (contourArea healthy_contour);
     features \<leftarrow> unscaled_features healthy_contour worn_contour;
     Some (scale_loss_features effective features)
   }"

text \<open>The keys of the dictionary, by kind.\<close>

definition loss_diff_keys :: "string list" where
  "loss_diff_keys =
     [''area_loss'', ''area_loss_squared'', ''area_loss_cubic'', ''area_loss_sqrt'',
      ''perimeter_loss'', ''height_loss'', ''width_loss'', ''height_loss_squared'',
      ''hull_area_loss'', ''solidity_loss'', ''dt_max_diff'', ''dt_mean_diff'',
      ''dt_median_diff'', ''dt_std_diff'', ''edge_density_loss'']"

definition ratio_keys :: "string list" where
  "ratio_keys =
     [''area_ratio'', ''perimeter_ratio'', ''height_ratio'', ''width_ratio'',
      ''hull_area_ratio'', ''solidity_ratio'', ''edge_density_ratio'']"

definition feature_keys :: "string list" where
  "feature_keys =
     [''area_ratio'', ''area_loss'', ''area_loss_squared'', ''area_loss_cubic'',
      ''area_loss_sqrt'', ''perimeter_ratio'', ''perimeter_loss'', ''height_ratio'',
      ''width_ratio'', ''height_loss'', ''width_loss'', ''height_loss_squared'',
      ''hull_area_ratio'', ''hull_area_loss'', ''solidity_ratio'', ''solidity_loss'',
      ''dt_max_diff'', ''dt_mean_diff'', ''dt_median_diff'', ''dt_std_diff'',
      ''edge_density_ratio'', ''edge_density_loss'']"

subsection \<open>\<open>find_most_similar_tooth_contour_early_wear\<close>\<close>

text \<open>
  The function returns the pair \<open>(None, None)\<close> on an empty candidate list, \<open>None\<close>
  when no candidate was kept, and the kept \<open>(idx, worn_contour)\<close> otherwise; the caller
  takes both of the first two for "no match".
\<close>

datatype match_result = NonePair | NoMatch | Match int contour

definition centroid_distance :: "contour \<Rightarrow> contour \<Rightarrow> real" where
  "centroid_distance healthy_contour worn_contour =
     (let healthy_centroid = calculate_contour_centroid healthy_contour;
          worn_centroid = calculate_contour_centroid worn_contour
      in sqrt ((fst healthy_centroid - fst worn_centroid) ^ 2
             + (snd healthy_centroid - snd worn_centroid) ^ 2))"

text \<open>One round of the loop; the state is \<open>(best_score, best_match)\<close>.\<close>

definition match_step ::
  "contour \<Rightarrow> real \<Rightarrow> int \<times> contour \<Rightarrow> pyfloat \<times> (int \<times> contour) option
     \<Rightarrow> pyfloat \<times> (int \<times> contour) option" where
  "match_step healthy_contour max_distance_threshold cand best =
     (let worn_contour = snd cand;
          healthy_area = contourArea healthy_contour;
          healthy_perimeter = arcLength healthy_contour;
          worn_area = contourArea worn_contour
      in if 20 \<le> worn_area \<and> worn_area \<le> 5000
         then (let worn_perimeter = arcLength worn_contour;
                   distance = centroid_distance healthy_contour worn_contour
               in if distance > max_distance_threshold then best
                  else (let w_distance = 0.2; w_area = 0.5; w_perimeter = 0.3;
                            area_diff = \<bar>worn_area - healthy_area\<bar> / max healthy_area 1;
                            perimeter_diff =
                              \<bar>worn_perimeter - healthy_perimeter\<bar> / max healthy_perimeter 1;
                            distance_norm = np_true_divide distance max_distance_threshold;
                            score = fadd (fadd (fmul distance_norm w_distance) (w_area * area_diff))
                                      (w_perimeter * perimeter_diff)
                        in if flt score (fst best) then (score, Some cand) else best))
         else best)"

definition find_most_similar_tooth_contour_early_wear ::
  "contour \<Rightarrow> (int \<times> contour) list \<Rightarrow> real \<Rightarrow> match_result" where
  "find_most_similar_tooth_contour_early_wear healthy_contour worn_contours max_distance_threshold =
     (if worn_contours = [] then NonePair
      else (case snd (fold (match_step healthy_contour max_distance_threshold) worn_contours
                         (PosInf, None)) of
              None \<Rightarrow> NoMatch
            | Some (idx, worn_contour) \<Rightarrow> Match idx worn_contour))"

text \<open>
  The spec's words for matching: the two gates, and the weighted score of a candidate
  that passed them.
\<close>

definition passes_gates :: "contour \<Rightarrow> real \<Rightarrow> contour \<Rightarrow> bool" where
  "passes_gates healthy max_distance worn \<longleftrightarrow>
     20 \<le> contourArea worn \<and> contourArea worn \<le> 5000 \<and>
     centroid_distance healthy worn \<le> max_distance"

definition perimeter_difference :: "contour \<Rightarrow> contour \<Rightarrow> real" where
  "perimeter_difference healthy worn =
     \<bar>arcLength worn - arcLength healthy\<bar> / max (arcLength healthy) 1"

definition weighted_score :: "contour \<Rightarrow> real \<Rightarrow> contour \<Rightarrow> real" where
  "weighted_score healthy max_distance worn =
     0.2 * (centroid_distance healthy worn / max_distance)
     + 0.5 * (\<bar>contourArea worn - contourArea healthy\<bar> / max (contourArea healthy) 1)
     + 0.3 * perimeter_difference healthy worn"

section \<open>Wear-depth resolution\<close>

subsection \<open>Single-tooth pipeline (\<open>tooth1_analyzer.py\<close>, \<open>analyze_tooth1_wear_depth\<close>)\<close>

text \<open>
  The resolution block of the loop body: the three module-level tables
  (\<open>manual_adjustments\<close>, \<open>optimized_results_w7_plus\<close>, \<open>actual_measurements\<close>) are
  arguments, \<open>features\<close> is the insertion-ordered dictionary feature extraction returns.
  The result is the pair stored under \<open>wear_depth_um\<close> and \<open>method\<close>.
\<close>

definition tooth1_wear_depth_resolution ::
  "(int \<rightharpoonup> real) \<Rightarrow> (int \<rightharpoonup> real) \<Rightarrow> (int \<rightharpoonup> real) \<Rightarrow> int \<Rightarrow> (string \<times> pyfloat) list
     \<Rightarrow> pyfloat \<times> string" where
  "tooth1_wear_depth_resolution manual optimized actual wear_num features =
     (let (predicted_depth, method_name) =
        (case manual wear_num of
           Some v \<Rightarrow> (Float v, ''manual_adjustment'')
         | None \<Rightarrow>
        (case optimized wear_num of
           Some v \<Rightarrow> (Float v, ''optimized'')
         | None \<Rightarrow>
        (case actual wear_num of
           Some v \<Rightarrow> (Float v, ''actual_measurement'')
         | None \<Rightarrow>
           (let area_loss = (case map_of features ''area_loss'' of Some a \<Rightarrow> a | None \<Rightarrow> Float 0)
            in (fmul area_loss 1000, ''feature_based'')))))
      in (py_max (Float 0) (py_min predicted_depth (Float MAX_THEORETICAL_WEAR)), method_name))"

subsection \<open>Multi-tooth pipeline (\<open>wear_analyzer.py\<close>, \<open>predict_wear_depth_from_features\<close>)\<close>

definition tooth1_ground_truth :: "int \<rightharpoonup> real" where
  "tooth1_ground_truth = map_of
     [(1, 38.0), (2, 77.0), (3, 115.0), (4, 152.0), (5, 166.0), (6, 185.0), (7, 258.7),
      (8, 271.6), (9, 285.2), (10, 299.5), (11, 314.4), (12, 330.1), (13, 346.7), (14, 364.0),
      (15, 382.2), (16, 401.3), (17, 421.4), (18, 442.4), (19, 464.6), (20, 487.8), (21, 512.2),
      (22, 537.8), (23, 564.7), (24, 592.9), (25, 622.5), (26, 653.7), (27, 686.4), (28, 720.7),
      (29, 756.7), (30, 794.5), (31, 834.3), (32, 876.0), (33, 919.8), (34, 965.8), (35, 1000.0)]"

text \<open>
  \<open>np.random.normal(loc, scale)\<close> returns \<open>loc + scale * z\<close> for the standard normal
  variate \<open>z\<close> its generator draws at that call; the draw is an argument here, a fresh
  one for every call.
\<close>

definition np_random_normal :: "real \<Rightarrow> real \<Rightarrow> real \<Rightarrow> real" where
  "np_random_normal loc scale z = loc + scale * z"

definition predict_wear_depth_from_features :: "real list \<Rightarrow> int \<Rightarrow> int \<Rightarrow> real \<Rightarrow> real" where
  "predict_wear_depth_from_features features wear_case_no tooth_no z =
     (case tooth1_ground_truth wear_case_no of
        Some base_depth \<Rightarrow>
          if tooth_no = 1 then base_depth
          else (let tooth_variation = np_random_normal 1.0 0.05 z;
                    predicted_depth = base_depth * tooth_variation
                in max 0 (min predicted_depth MAX_THEORETICAL_WEAR))
      | None \<Rightarrow>
          (let base_wear = real_of_int wear_case_no * 25.0;
               tooth_factor = 1.0 + real_of_int (tooth_no - 1) * 0.02
           in min (base_wear * tooth_factor) MAX_THEORETICAL_WEAR))"

section \<open>Monotonicity enforcement (\<open>data_utils.py\<close>)\<close>

subsection \<open>Multi-tooth: \<open>enforce_monotonicity_for_all_teeth\<close>\<close>

text \<open>
  The function mutates the dictionaries of \<open>results\<close> in place and returns the same
  list. The list is the store: position \<open>i\<close> stands for the \<open>i\<close>-th dictionary, and
  \<open>teeth_data\<close> (an insertion-ordered dict from tooth number to a list of those
  dictionaries) holds positions.
\<close>

fun append_to_group :: "int \<Rightarrow> nat \<Rightarrow> (int \<times> nat list) list \<Rightarrow> (int \<times> nat list) list" where
  "append_to_group t i [] = [(t, [i])]"
| "append_to_group t i ((k, js) # td) =
     (if k = t then (k, js @ [i]) # td else (k, js) # append_to_group t i td)"

definition group_by_tooth :: "tooth_measurement list \<Rightarrow> (int \<times> nat list) list" where
  "group_by_tooth results =
     fold (\<lambda>i td. append_to_group (tooth_number (results ! i)) i td) [0..<length results] []"

definition sort_groups ::
  "tooth_measurement list \<Rightarrow> (int \<times> nat list) list \<Rightarrow> (int \<times> nat list) list" where
  "sort_groups results td =
     map (\<lambda>(t, js). (t, sort_key (\<lambda>i. wear_case (results ! i)) js)) td"

text \<open>The inner loop over one tooth's records, \<open>max_wear\<close> being the first argument.\<close>

fun walk_tooth :: "real \<Rightarrow> nat list \<Rightarrow> tooth_measurement list \<Rightarrow> tooth_measurement list" where
  "walk_tooth max_wear [] results = results"
| "walk_tooth max_wear (i # js) results =
     (let current_wear = wear_depth_um (results ! i) in
      if current_wear < max_wear
      then walk_tooth max_wear js (results[i := (results ! i)\<lparr>wear_depth_um := max_wear\<rparr>])
      else walk_tooth current_wear js results)"

definition enforce_monotonicity_for_all_teeth :: "tooth_measurement list \<Rightarrow> tooth_measurement list" where
  "enforce_monotonicity_for_all_teeth results =
     (if results = [] then results
      else fold (\<lambda>(t, js) rs. walk_tooth 0 js rs)
             (sort_groups results (group_by_tooth results)) results)"

text \<open>
  The spec's words for one tooth: walk forward with the running maximum, replace a depth
  below it by the maximum, otherwise update the maximum.
\<close>

fun running_max :: "real \<Rightarrow> real list \<Rightarrow> real list" where
  "running_max m [] = []"
| "running_max m (d # ds) = (if d < m then m # running_max m ds else d # running_max d ds)"

definition tooth_depths :: "int \<Rightarrow> tooth_measurement list \<Rightarrow> real list" where
  "tooth_depths t results =
     map wear_depth_um (sort_key wear_case (filter (\<lambda>r. tooth_number r = t) results))"

subsection \<open>Single-tooth: \<open>enforce_monotonicity_for_tooth1\<close>\<close>

text \<open>
  One round of the loop \<open>for i in range(1, len(sorted_results))\<close>. The comparison is
  made on the depths clamped at 0, the previous depth being the one already stored at
  \<open>i - 1\<close>; only an adjusted depth is written back.
\<close>

definition tooth1_step :: "nat \<Rightarrow> 'a measurement_scheme list \<Rightarrow> 'a measurement_scheme list" where
  "tooth1_step i sorted_results =
     (let current_wear = max 0 (wear_depth_um (sorted_results ! i));
          previous_wear = max 0 (wear_depth_um (sorted_results ! (i - 1)))
      in if current_wear < previous_wear
         then (let adjusted_wear = max 0 (min (previous_wear * 1.02) MAX_THEORETICAL_WEAR)
               in sorted_results[i := (sorted_results ! i)
                    \<lparr>wear_depth_um := adjusted_wear,
                     method_tag := map_option (\<lambda>m. m @ ''_monotonic'')
                                     (method_tag (sorted_results ! i))\<rparr>])
         else sorted_results)"

definition enforce_monotonicity_for_tooth1 :: "'a measurement_scheme list \<Rightarrow> 'a measurement_scheme list" where
  "enforce_monotonicity_for_tooth1 results =
     (if results = [] then results
      else (let sorted_results = sort_key wear_case results
            in fold tooth1_step [1..<length sorted_results] sorted_results))"

section \<open>The table-format CSV (\<open>data_utils.py\<close>, \<open>data_loader.py\<close>)\<close>

subsection \<open>Integers as text\<close>







subsection \<open>Rounding to one decimal\<close>



subsection \<open>Writing: \<open>save_table_format\<close>, the multi-tooth branch\<close>




subsection \<open>Reading: \<open>load_all_teeth_data\<close>\<close>







section \<open>Auxiliary notions for the proofs\<close>

definition lookup :: "(int \<times> nat list) list \<Rightarrow> int \<Rightarrow> nat list" where
  "lookup td t = (case map_of td t of None \<Rightarrow> [] | Some js \<Rightarrow> js)"

definition wf_groups :: "tooth_measurement list \<Rightarrow> (int \<times> nat list) list \<Rightarrow> bool" where
  "wf_groups rs gs \<longleftrightarrow>
     distinct (map fst gs) \<and>
     (\<forall>(k, js) \<in> set gs. distinct js \<and> (\<forall>i \<in> set js. i < length rs \<and> tooth_number (rs ! i) = k))"

definition tooth_indices :: "int \<Rightarrow> tooth_measurement list \<Rightarrow> nat list" where
  "tooth_indices t rs =
     sort_key (\<lambda>i. wear_case (rs ! i)) (filter (\<lambda>i. tooth_number (rs ! i) = t) [0..<length rs])"

definition match_inv ::
  "contour \<Rightarrow> real \<Rightarrow> (int \<times> contour) list \<Rightarrow> pyfloat \<times> (int \<times> contour) option \<Rightarrow> bool" where
  "match_inv healthy max_distance seen st \<longleftrightarrow>
     (case snd st of
        None \<Rightarrow> fst st = PosInf \<and> (\<forall>(j, d) \<in> set seen. \<not> passes_gates healthy max_distance d)
      | Some (i, c) \<Rightarrow>
          (i, c) \<in> set seen \<and> passes_gates healthy max_distance c \<and>
          fst st = Float (weighted_score healthy max_distance c) \<and>
          (\<forall>(j, d) \<in> set seen. passes_gates healthy max_distance d \<longrightarrow>
              weighted_score healthy max_distance c \<le> weighted_score healthy max_distance d))"

definition adjust :: "'a measurement_scheme \<Rightarrow> 'a measurement_scheme \<Rightarrow> 'a measurement_scheme" where
  "adjust prev cur =
     (if max 0 (wear_depth_um cur) < max 0 (wear_depth_um prev)
      then cur\<lparr>wear_depth_um := max 0 (min (max 0 (wear_depth_um prev) * 1.02) MAX_THEORETICAL_WEAR),
               method_tag := map_option (\<lambda>m. m @ ''_monotonic'') (method_tag cur)\<rparr>
      else cur)"

subsection \<open>Inputs used as examples\<close>

definition healthy_1000 :: contour where
  "healthy_1000 = \<lparr>contourArea = 1000, arcLength = 130, m00 = 1000, m10 = 100000, m01 = 100000,
      bbox_w = 25, bbox_h = 40, hull_area = 1010, dt_max = 12, dt_mean = 0.1,
      dt_median = 0, dt_std = 0.4, edge_sum = 33150\<rparr>"

definition noisy_900 :: contour where
  "noisy_900 = \<lparr>contourArea = 900, arcLength = 140, m00 = 900, m10 = 90000, m01 = 90000,
      bbox_w = 25, bbox_h = 38, hull_area = 950, dt_max = 11, dt_mean = 0.1,
      dt_median = 0, dt_std = 0.4, edge_sum = 35700\<rparr>"

definition healthy_6000 :: contour where
  "healthy_6000 = \<lparr>contourArea = 6000, arcLength = 320, m00 = 6000, m10 = 600000, m01 = 600000,
      bbox_w = 60, bbox_h = 100, hull_area = 6050, dt_max = 30, dt_mean = 0.5,
      dt_median = 0, dt_std = 1.2, edge_sum = 81600\<rparr>"

definition worn_4000 :: contour where
  "worn_4000 = \<lparr>contourArea = 4000, arcLength = 260, m00 = 4000, m10 = 400000, m01 = 400000,
      bbox_w = 50, bbox_h = 80, hull_area = 4100, dt_max = 25, dt_mean = 0.4,
      dt_median = 0, dt_std = 1.0, edge_sum = 66300\<rparr>"



text \<open>
  A \<open>ground_truth_measurements.csv\<close> that holds the values of the hardcoded table with
  wear case 3 measured as 120.5 instead of 115.
\<close>

definition remeasured_csv :: "int \<rightharpoonup> real" where
  "remeasured_csv = (map_of hardcoded_measurements)(3 \<mapsto> 120.5)"

section \<open>Multi-tooth monotonicity: proofs\<close>

lemma lookup_append_to_group:
  "lookup (append_to_group t i td) t' = (if t = t' then lookup td t' @ [i] else lookup td t')"
  by (induction td) (auto simp: lookup_def)

lemma keys_append_to_group:
  "fst ` set (append_to_group t i td) = insert t (fst ` set td)"
  by (induction td) (force split: if_splits)+

lemma distinct_append_to_group:
  "distinct (map fst td) \<Longrightarrow> distinct (map fst (append_to_group t i td))"
proof (induction td)
  case Nil
  then show ?case by simp
next
  case (Cons a td)
  obtain k js where a: "a = (k, js)" by (cases a)
  show ?case
  proof (cases "k = t")
    case True
    with Cons a show ?thesis by simp
  next
    case False
    have "fst ` set (append_to_group t i td) = insert t (fst ` set td)"
      by (rule keys_append_to_group)
    with Cons a False show ?thesis by auto
  qed
qed

lemma fold_groups_lookup:
  "lookup (fold (\<lambda>i td. append_to_group (f i) i td) js td) t
     = lookup td t @ filter (\<lambda>i. f i = t) js"
  by (induction js arbitrary: td) (auto simp: lookup_append_to_group)

lemma fold_groups_distinct:
  "distinct (map fst td) \<Longrightarrow> distinct (map fst (fold (\<lambda>i td. append_to_group (f i) i td) js td))"
  by (induction js arbitrary: td) (auto simp: distinct_append_to_group)

lemma in_groups_lookup:
  "distinct (map fst td) \<Longrightarrow> (t, js) \<in> set td \<Longrightarrow> lookup td t = js"
  by (simp add: lookup_def)

lemma group_by_tooth_members:
  assumes "(t, js) \<in> set (group_by_tooth rs)"
  shows "js = filter (\<lambda>i. tooth_number (rs ! i) = t) [0..<length rs]"
proof -
  have d: "distinct (map fst (group_by_tooth rs))"
    unfolding group_by_tooth_def by (rule fold_groups_distinct) simp
  have "lookup (group_by_tooth rs) t = filter (\<lambda>i. tooth_number (rs ! i) = t) [0..<length rs]"
    unfolding group_by_tooth_def fold_groups_lookup by (simp add: lookup_def)
  with in_groups_lookup[OF d assms] show ?thesis by simp
qed

lemma length_walk_tooth [simp]: "length (walk_tooth m js rs) = length rs"
  by (induction js arbitrary: m rs) (auto simp: Let_def)

lemma walk_tooth_other:
  "i \<notin> set js \<Longrightarrow> walk_tooth m js rs ! i = rs ! i"
  by (induction js arbitrary: m rs) (auto simp: Let_def)

lemma walk_tooth_frame:
  "i < length rs \<Longrightarrow>
   tooth_number (walk_tooth m js rs ! i) = tooth_number (rs ! i) \<and>
   wear_case (walk_tooth m js rs ! i) = wear_case (rs ! i) \<and>
   method_tag (walk_tooth m js rs ! i) = method_tag (rs ! i)"
proof (induction js arbitrary: m rs)
  case Nil
  then show ?case by simp
next
  case (Cons j js)
  show ?case
  proof (cases "wear_depth_um (rs ! j) < m")
    case True
    let ?rs = "rs[j := (rs ! j)\<lparr>wear_depth_um := m\<rparr>]"
    have "i < length ?rs" using Cons.prems by simp
    from Cons.IH[OF this, of m] True Cons.prems show ?thesis
      by (cases "i = j") (simp_all add: Let_def)
  next
    case False
    with Cons.IH[OF Cons.prems] show ?thesis by (simp add: Let_def)
  qed
qed

lemma walk_tooth_depths:
  "distinct js \<Longrightarrow> \<forall>i \<in> set js. i < length rs \<Longrightarrow>
   map (\<lambda>i. wear_depth_um (walk_tooth m js rs ! i)) js
     = running_max m (map (\<lambda>i. wear_depth_um (rs ! i)) js)"
proof (induction js arbitrary: m rs)
  case Nil
  then show ?case by simp
next
  case (Cons j js)
  have j: "j \<notin> set js" "j < length rs" and d: "distinct js" using Cons.prems by auto
  show ?case
  proof (cases "wear_depth_um (rs ! j) < m")
    case True
    let ?rs = "rs[j := (rs ! j)\<lparr>wear_depth_um := m\<rparr>]"
    have r: "\<forall>i \<in> set js. i < length ?rs" using Cons.prems by simp
    have same: "map (\<lambda>i. wear_depth_um (?rs ! i)) js = map (\<lambda>i. wear_depth_um (rs ! i)) js"
      using j by (auto simp: nth_list_update)
    have "wear_depth_um (walk_tooth m js ?rs ! j) = m"
      using j by (simp add: walk_tooth_other)
    with Cons.IH[OF d r, of m] True same show ?thesis by (simp add: Let_def)
  next
    case False
    have r: "\<forall>i \<in> set js. i < length rs" using Cons.prems by simp
    have "walk_tooth (wear_depth_um (rs ! j)) js rs ! j = rs ! j"
      using j by (simp add: walk_tooth_other)
    with Cons.IH[OF d r, of "wear_depth_um (rs ! j)"] False show ?thesis by (simp add: Let_def)
  qed
qed

lemma running_max_sorted: "sorted (m # running_max m ds)"
proof (induction ds arbitrary: m)
  case Nil
  then show ?case by simp
next
  case (Cons d ds)
  from Cons[of m] Cons[of d] show ?case by auto
qed

lemma running_max_fixed: "sorted (m # ds) \<Longrightarrow> running_max m ds = ds"
  by (induction ds arbitrary: m) auto

lemma walk_tooth_fixed:
  "sorted (m # map (\<lambda>i. wear_depth_um (rs ! i)) js) \<Longrightarrow> walk_tooth m js rs = rs"
  by (induction js arbitrary: m) (auto simp: Let_def)

lemma wf_groups_walk:
  "wf_groups rs gs \<Longrightarrow> wf_groups (walk_tooth m js rs) gs"
  unfolding wf_groups_def by (auto simp: walk_tooth_frame)

lemma fold_walk_length [simp]:
  "length (fold (\<lambda>(t, js) rs. walk_tooth 0 js rs) gs rs) = length rs"
  by (induction gs arbitrary: rs) auto

lemma fold_walk_frame:
  "i < length rs \<Longrightarrow>
   tooth_number (fold (\<lambda>(t, js) rs. walk_tooth 0 js rs) gs rs ! i) = tooth_number (rs ! i) \<and>
   wear_case (fold (\<lambda>(t, js) rs. walk_tooth 0 js rs) gs rs ! i) = wear_case (rs ! i) \<and>
   method_tag (fold (\<lambda>(t, js) rs. walk_tooth 0 js rs) gs rs ! i) = method_tag (rs ! i)"
proof (induction gs arbitrary: rs)
  case Nil
  then show ?case by simp
next
  case (Cons g gs)
  obtain t js where g: "g = (t, js)" by (cases g)
  have "i < length (walk_tooth 0 js rs)" using Cons.prems by simp
  from Cons.IH[OF this] walk_tooth_frame[OF Cons.prems, of 0 js] g show ?case by simp
qed

lemma fold_walk_other:
  "\<forall>(k, js) \<in> set gs. i \<notin> set js \<Longrightarrow>
   fold (\<lambda>(t, js) rs. walk_tooth 0 js rs) gs rs ! i = rs ! i"
  by (induction gs arbitrary: rs) (auto simp: walk_tooth_other)

lemma fold_walk_depths:
  assumes "wf_groups rs gs" and "(t, js) \<in> set gs"
  shows "map (\<lambda>i. wear_depth_um (fold (\<lambda>(t, js) rs. walk_tooth 0 js rs) gs rs ! i)) js
           = running_max 0 (map (\<lambda>i. wear_depth_um (rs ! i)) js)"
  using assms
proof (induction gs arbitrary: rs)
  case Nil
  then show ?case by simp
next
  case (Cons g gs)
  obtain k ks where g: "g = (k, ks)" by (cases g)
  let ?rs = "walk_tooth 0 ks rs"
  have wf_tl: "wf_groups ?rs gs"
    using wf_groups_walk[OF Cons.prems(1), of 0 ks] by (auto simp: wf_groups_def)
  have js: "distinct js" "\<forall>i \<in> set js. i < length rs \<and> tooth_number (rs ! i) = t"
    using Cons.prems by (auto simp: wf_groups_def)
  show ?case
  proof (cases "(t, js) = (k, ks)")
    case True
    have "\<forall>(k', js') \<in> set gs. \<forall>i \<in> set js. i \<notin> set js'"
    proof (clarify)
      fix k' js' i assume m: "(k', js') \<in> set gs" and i: "i \<in> set js" "i \<in> set js'"
      from m Cons.prems(1) have "tooth_number (rs ! i) = k'" using i
        by (auto simp: wf_groups_def)
      moreover have "tooth_number (rs ! i) = t" using js i by simp
      moreover have "k' \<noteq> t" using m Cons.prems(1) True g by (force simp: wf_groups_def)
      ultimately show False by simp
    qed
    then have "\<forall>i \<in> set js. fold (\<lambda>(t, js) rs. walk_tooth 0 js rs) gs ?rs ! i = ?rs ! i"
      by (auto intro!: fold_walk_other)
    then have "map (\<lambda>i. wear_depth_um (fold (\<lambda>(t, js) rs. walk_tooth 0 js rs) gs ?rs ! i)) js
        = map (\<lambda>i. wear_depth_um (?rs ! i)) js" by simp
    also have "\<dots> = running_max 0 (map (\<lambda>i. wear_depth_um (rs ! i)) js)"
      using walk_tooth_depths[of js rs 0] js True by simp
    finally show ?thesis using g by simp
  next
    case False
    then have mem: "(t, js) \<in> set gs" using Cons.prems(2) g by auto
    have "k \<noteq> t" using mem Cons.prems(1) g by (force simp: wf_groups_def)
    then have "\<forall>i \<in> set js. i \<notin> set ks" using js Cons.prems(1) g by (auto simp: wf_groups_def)
    then have same: "map (\<lambda>i. wear_depth_um (?rs ! i)) js = map (\<lambda>i. wear_depth_um (rs ! i)) js"
      by (simp add: walk_tooth_other)
    from Cons.IH[OF wf_tl mem] same g show ?thesis by simp
  qed
qed

lemma filter_as_indices:
  "filter P xs = map (\<lambda>i. xs ! i) (filter (\<lambda>i. P (xs ! i)) [0..<length xs])"
proof -
  have "filter P (map (\<lambda>i. xs ! i) [0..<length xs]) 
      = map (\<lambda>i. xs ! i) (filter (\<lambda>i. P (xs ! i)) [0..<length xs])"
    by (simp add: filter_map comp_def)
  then show ?thesis by (simp add: map_nth)
qed

lemma insort_key_map:
  "insort_key f (g x) (map g xs) = map g (insort_key (\<lambda>i. f (g i)) x xs)"
  by (induction xs) auto

lemma sort_key_map_indices:
  "sort_key f (map g xs) = map g (sort_key (\<lambda>i. f (g i)) xs)"
  by (induction xs) (auto simp: insort_key_map)

lemma insort_key_cong_set:
  "f x = g x \<Longrightarrow> \<forall>y \<in> set xs. f y = g y \<Longrightarrow> insort_key f x xs = insort_key g x xs"
  by (induction xs) auto

lemma sort_key_cong_set:
  "\<forall>y \<in> set xs. f y = g y \<Longrightarrow> sort_key f xs = sort_key g xs"
proof (induction xs)
  case Nil
  then show ?case by simp
next
  case (Cons x xs)
  then have "sort_key f xs = sort_key g xs" by simp
  moreover have "insort_key f x (sort_key g xs) = insort_key g x (sort_key g xs)"
    using Cons.prems by (intro insort_key_cong_set) auto
  ultimately show ?case by simp
qed

lemma tooth_depths_indices:
  "tooth_depths t rs = map (\<lambda>i. wear_depth_um (rs ! i)) (tooth_indices t rs)"
  unfolding tooth_depths_def tooth_indices_def
  by (subst filter_as_indices) (simp add: sort_key_map_indices comp_def)

lemma tooth_indices_cong:
  assumes "length rs' = length rs"
    and "\<forall>i < length rs. tooth_number (rs' ! i) = tooth_number (rs ! i) \<and> wear_case (rs' ! i) = wear_case (rs ! i)"
  shows "tooth_indices t rs' = tooth_indices t rs"
proof -
  have f: "filter (\<lambda>i. tooth_number (rs' ! i) = t) [0..<length rs']
         = filter (\<lambda>i. tooth_number (rs ! i) = t) [0..<length rs]"
    using assms by (auto intro: filter_cong)
  show ?thesis unfolding tooth_indices_def f
    using assms by (intro sort_key_cong_set) auto
qed

lemma wf_group_by_tooth: "wf_groups rs (sort_groups rs (group_by_tooth rs))"
proof -
  have d: "distinct (map fst (group_by_tooth rs))"
    unfolding group_by_tooth_def by (rule fold_groups_distinct) simp
  have "map fst (sort_groups rs (group_by_tooth rs)) = map fst (group_by_tooth rs)"
    by (auto simp: sort_groups_def)
  moreover have "\<forall>(k, js) \<in> set (sort_groups rs (group_by_tooth rs)).
      distinct js \<and> (\<forall>i \<in> set js. i < length rs \<and> tooth_number (rs ! i) = k)"
  proof (clarify)
    fix k js assume "(k, js) \<in> set (sort_groups rs (group_by_tooth rs))"
    then obtain js0 where m: "(k, js0) \<in> set (group_by_tooth rs)"
      and js: "js = sort_key (\<lambda>i. wear_case (rs ! i)) js0"
      by (auto simp: sort_groups_def)
    from group_by_tooth_members[OF m] js
    show "distinct js \<and> (\<forall>i \<in> set js. i < length rs \<and> tooth_number (rs ! i) = k)"
      by auto
  qed
  ultimately show ?thesis using d by (simp add: wf_groups_def)
qed

lemma sorted_group_is_tooth_indices:
  assumes "(t, js) \<in> set (sort_groups rs (group_by_tooth rs))"
  shows "js = tooth_indices t rs"
proof -
  from assms obtain js0 where m: "(t, js0) \<in> set (group_by_tooth rs)"
    and js: "js = sort_key (\<lambda>i. wear_case (rs ! i)) js0"
    by (auto simp: sort_groups_def)
  from group_by_tooth_members[OF m] js show ?thesis by (simp add: tooth_indices_def)
qed

lemma tooth_indices_in_groups:
  assumes "tooth_indices t rs \<noteq> []"
  shows "(t, tooth_indices t rs) \<in> set (sort_groups rs (group_by_tooth rs))"
proof -
  have d: "distinct (map fst (group_by_tooth rs))"
    unfolding group_by_tooth_def by (rule fold_groups_distinct) simp
  have l: "lookup (group_by_tooth rs) t = filter (\<lambda>i. tooth_number (rs ! i) = t) [0..<length rs]"
    unfolding group_by_tooth_def fold_groups_lookup by (simp add: lookup_def)
  from assms have "filter (\<lambda>i. tooth_number (rs ! i) = t) [0..<length rs] \<noteq> []"
    by (auto simp: tooth_indices_def)
  with l obtain js0 where "map_of (group_by_tooth rs) t = Some js0"
    and "js0 = filter (\<lambda>i. tooth_number (rs ! i) = t) [0..<length rs]"
    by (auto simp: lookup_def split: option.splits)
  then have "(t, js0) \<in> set (group_by_tooth rs)" by (auto dest: map_of_SomeD)
  then have "(t, sort_key (\<lambda>i. wear_case (rs ! i)) js0) \<in> set (sort_groups rs (group_by_tooth rs))"
    by (force simp: sort_groups_def)
  then show ?thesis using \<open>js0 = _\<close> by (simp add: tooth_indices_def)
qed

lemma enforce_frame:
  "length (enforce_monotonicity_for_all_teeth rs) = length rs \<and>
   (\<forall>i < length rs.
      tooth_number (enforce_monotonicity_for_all_teeth rs ! i) = tooth_number (rs ! i) \<and>
      wear_case (enforce_monotonicity_for_all_teeth rs ! i) = wear_case (rs ! i) \<and>
      method_tag (enforce_monotonicity_for_all_teeth rs ! i) = method_tag (rs ! i))"
  by (simp add: enforce_monotonicity_for_all_teeth_def fold_walk_frame)

lemma enforce_tooth_depths:
  "tooth_depths t (enforce_monotonicity_for_all_teeth rs) = running_max 0 (tooth_depths t rs)"
proof (cases "tooth_indices t rs = []")
  case True
  moreover have "tooth_indices t (enforce_monotonicity_for_all_teeth rs) = tooth_indices t rs"
    using enforce_frame[of rs] by (intro tooth_indices_cong) auto
  ultimately show ?thesis by (simp add: tooth_depths_indices)
next
  case False
  let ?out = "enforce_monotonicity_for_all_teeth rs"
  have idx: "tooth_indices t ?out = tooth_indices t rs"
    using enforce_frame[of rs] by (intro tooth_indices_cong) auto
  from False have ne: "rs \<noteq> []" by (auto simp: tooth_indices_def)
  have "map (\<lambda>i. wear_depth_um (?out ! i)) (tooth_indices t rs)
      = running_max 0 (map (\<lambda>i. wear_depth_um (rs ! i)) (tooth_indices t rs))"
    using fold_walk_depths[OF wf_group_by_tooth tooth_indices_in_groups[OF False]] ne
    by (simp add: enforce_monotonicity_for_all_teeth_def)
  then show ?thesis by (simp add: tooth_depths_indices idx)
qed

text \<open>
  Claim C1. For every list of multi-tooth records and every tooth number, the depths of
  that tooth's records, taken in ascending (stable) order of wear case out of the list
  \<open>enforce_monotonicity_for_all_teeth\<close> returns, are non-decreasing; they are the
  running maximum (started at 0.0) of the input depths in that order: a depth below the
  maximum is replaced by the maximum itself, any other depth is kept.
\<close>

theorem enforce_all_teeth_nondecreasing:
  "sorted (tooth_depths t (enforce_monotonicity_for_all_teeth results)) \<and>
   tooth_depths t (enforce_monotonicity_for_all_teeth results)
     = running_max 0 (tooth_depths t results)"
proof -
  have "sorted (0 # running_max 0 (tooth_depths t results))" by (rule running_max_sorted)
  then show ?thesis by (simp add: enforce_tooth_depths)
qed

theorem enforce_all_teeth_nondecreasing_witness:
  "sorted (tooth_depths 1 (enforce_monotonicity_for_all_teeth
      [\<lparr>wear_case = 2, wear_depth_um = 5, method_tag = None, tooth_number = 1\<rparr>,
       \<lparr>wear_case = 1, wear_depth_um = 10, method_tag = None, tooth_number = 1\<rparr>,
       \<lparr>wear_case = 1, wear_depth_um = -3, method_tag = None, tooth_number = 2\<rparr>,
       \<lparr>wear_case = 3, wear_depth_um = 12, method_tag = None, tooth_number = 1\<rparr>])) \<and>
   tooth_depths 1 (enforce_monotonicity_for_all_teeth
      [\<lparr>wear_case = 2, wear_depth_um = 5, method_tag = None, tooth_number = 1\<rparr>,
       \<lparr>wear_case = 1, wear_depth_um = 10, method_tag = None, tooth_number = 1\<rparr>,
       \<lparr>wear_case = 1, wear_depth_um = -3, method_tag = None, tooth_number = 2\<rparr>,
       \<lparr>wear_case = 3, wear_depth_um = 12, method_tag = None, tooth_number = 1\<rparr>]) = [10, 10, 12]"
proof -
  have "running_max 0 (tooth_depths 1
      [\<lparr>wear_case = 2, wear_depth_um = 5, method_tag = None, tooth_number = 1\<rparr>,
       \<lparr>wear_case = 1, wear_depth_um = 10, method_tag = None, tooth_number = 1\<rparr>,
       \<lparr>wear_case = 1, wear_depth_um = -3, method_tag = None, tooth_number = 2\<rparr>,
       \<lparr>wear_case = 3, wear_depth_um = 12, method_tag = None, tooth_number = 1\<rparr>]) = [10, 10, 12]"
    by (simp add: tooth_depths_def)
  with enforce_all_teeth_nondecreasing [of 1
      "[\<lparr>wear_case = 2, wear_depth_um = 5, method_tag = None, tooth_number = 1\<rparr>,
       \<lparr>wear_case = 1, wear_depth_um = 10, method_tag = None, tooth_number = 1\<rparr>,
       \<lparr>wear_case = 1, wear_depth_um = -3, method_tag = None, tooth_number = 2\<rparr>,
       \<lparr>wear_case = 3, wear_depth_um = 12, method_tag = None, tooth_number = 1\<rparr>]"]
  show ?thesis by simp
qed

lemma fold_walk_fixed:
  "\<forall>(t, js) \<in> set gs. sorted (0 # map (\<lambda>i. wear_depth_um (rs ! i)) js) \<Longrightarrow>
   fold (\<lambda>(t, js) rs. walk_tooth 0 js rs) gs rs = rs"
  by (induction gs) (auto simp: walk_tooth_fixed simp del: sorted_wrt.simps sorted_simps)

lemma group_by_tooth_cong:
  assumes "length rs' = length rs"
    and "\<forall>i < length rs. tooth_number (rs' ! i) = tooth_number (rs ! i)"
  shows "group_by_tooth rs' = group_by_tooth rs"
proof -
  have "\<And>td. \<forall>i \<in> set js. i < length rs \<Longrightarrow>
      fold (\<lambda>i td. append_to_group (tooth_number (rs' ! i)) i td) js td
    = fold (\<lambda>i td. append_to_group (tooth_number (rs ! i)) i td) js td" for js
    using assms(2) by (induction js) auto
  from this[of "[0..<length rs]" "[]"] assms(1) show ?thesis
    by (simp add: group_by_tooth_def)
qed

lemma sort_groups_cong:
  assumes "\<forall>(t, js) \<in> set gs. \<forall>i \<in> set js. wear_case (rs' ! i) = wear_case (rs ! i)"
  shows "sort_groups rs' gs = sort_groups rs gs"
  unfolding sort_groups_def using assms
  by (intro map_cong) (auto intro!: sort_key_cong_set)

text \<open>
  Claim C10. Multi-tooth monotonicity enforcement is idempotent: a second run returns
  the list of the first run unchanged (every record, hence every depth).
\<close>

theorem enforce_all_teeth_idempotent:
  "enforce_monotonicity_for_all_teeth (enforce_monotonicity_for_all_teeth results)
     = enforce_monotonicity_for_all_teeth results"
proof (cases "results = []")
  case True
  then show ?thesis by (simp add: enforce_monotonicity_for_all_teeth_def)
next
  case False
  let ?out = "enforce_monotonicity_for_all_teeth results"
  let ?gs = "sort_groups results (group_by_tooth results)"
  have fr: "length ?out = length results"
    "\<forall>i < length results. tooth_number (?out ! i) = tooth_number (results ! i)
        \<and> wear_case (?out ! i) = wear_case (results ! i)"
    using enforce_frame[of results] by auto
  have g: "group_by_tooth ?out = group_by_tooth results"
    using fr by (intro group_by_tooth_cong) auto
  have wf: "wf_groups results ?gs" by (rule wf_group_by_tooth)
  have "sort_groups ?out (group_by_tooth results) = ?gs"
  proof (intro sort_groups_cong, clarify)
    fix t js i assume "(t, js) \<in> set (group_by_tooth results)" "i \<in> set js"
    with group_by_tooth_members[of t js results] have "i < length results" by auto
    with fr show "wear_case (?out ! i) = wear_case (results ! i)" by simp
  qed
  with g have gs: "sort_groups ?out (group_by_tooth ?out) = ?gs" by simp
  have "\<forall>(t, js) \<in> set ?gs. sorted (0 # map (\<lambda>i. wear_depth_um (?out ! i)) js)"
  proof (clarify)
    fix t js assume m: "(t, js) \<in> set ?gs"
    have "map (\<lambda>i. wear_depth_um (?out ! i)) js
        = running_max 0 (map (\<lambda>i. wear_depth_um (results ! i)) js)"
      using fold_walk_depths[OF wf m] False by (simp add: enforce_monotonicity_for_all_teeth_def)
    then show "sorted (0 # map (\<lambda>i. wear_depth_um (?out ! i)) js)"
      using running_max_sorted[of 0] by simp
  qed
  then have "fold (\<lambda>(t, js) rs. walk_tooth 0 js rs) ?gs ?out = ?out"
    by (rule fold_walk_fixed)
  moreover have "?out \<noteq> []" using fr False by auto
  ultimately show ?thesis
    by (subst (1) enforce_monotonicity_for_all_teeth_def) (simp add: gs)
qed

theorem enforce_all_teeth_idempotent_witness:
  "enforce_monotonicity_for_all_teeth (enforce_monotonicity_for_all_teeth
      [\<lparr>wear_case = 1, wear_depth_um = 10, method_tag = None, tooth_number = 1\<rparr>,
       \<lparr>wear_case = 2, wear_depth_um = 5, method_tag = None, tooth_number = 1\<rparr>])
   = [\<lparr>wear_case = 1, wear_depth_um = 10, method_tag = None, tooth_number = 1\<rparr>,
      \<lparr>wear_case = 2, wear_depth_um = 10, method_tag = None, tooth_number = 1\<rparr>]"
proof -
  have "enforce_monotonicity_for_all_teeth
      [\<lparr>wear_case = 1, wear_depth_um = 10, method_tag = None, tooth_number = 1\<rparr>,
       \<lparr>wear_case = 2, wear_depth_um = 5, method_tag = None, tooth_number = 1\<rparr>]
   = [\<lparr>wear_case = 1, wear_depth_um = 10, method_tag = None, tooth_number = 1\<rparr>,
      \<lparr>wear_case = 2, wear_depth_um = 10, method_tag = None, tooth_number = 1\<rparr>]"
    by code_simp
  with enforce_all_teeth_idempotent [of
      "[\<lparr>wear_case = 1, wear_depth_um = 10, method_tag = None, tooth_number = 1\<rparr>,
        \<lparr>wear_case = 2, wear_depth_um = 5, method_tag = None, tooth_number = 1\<rparr>]"]
  show ?thesis by simp
qed

section \<open>Single-tooth monotonicity: proofs\<close>

lemma length_tooth1_step [simp]: "length (tooth1_step i s) = length s"
  by (simp add: tooth1_step_def Let_def)

lemma tooth1_step_other: "j \<noteq> i \<Longrightarrow> tooth1_step i s ! j = s ! j"
  by (simp add: tooth1_step_def Let_def)

lemma tooth1_step_wear_case: "map wear_case (tooth1_step i s) = map wear_case s"
  by (cases "i < length s") (auto simp: tooth1_step_def Let_def map_update list_update_same_conv list_update_beyond)

lemma length_tooth1_fold [simp]: "length (fold tooth1_step js s) = length s"
  by (induction js arbitrary: s) auto

lemma tooth1_fold_wear_case: "map wear_case (fold tooth1_step js s) = map wear_case s"
  by (induction js arbitrary: s) (auto simp: tooth1_step_wear_case)

lemma tooth1_fold_untouched: "j \<notin> set js \<Longrightarrow> fold tooth1_step js s ! j = s ! j"
  by (induction js arbitrary: s) (auto simp: tooth1_step_other)

lemma tooth1_fold_split:
  assumes "Suc k < n"
  shows "fold tooth1_step [Suc 0..<n] s
       = fold tooth1_step [Suc (Suc k)..<n] (tooth1_step (Suc k) (fold tooth1_step [Suc 0..<Suc k] s))"
proof -
  have "[Suc 0..<n] = [Suc 0..<Suc k] @ [Suc k..<n]"
    using assms upt_add_eq_append[of "Suc 0" "Suc k" "n - Suc k"] by simp
  also have "[Suc k..<n] = Suc k # [Suc (Suc k)..<n]"
    using assms by (simp add: upt_conv_Cons)
  finally show ?thesis by simp
qed

lemma tooth1_step_nth:
  "Suc k < length s \<Longrightarrow> tooth1_step (Suc k) s ! Suc k = adjust (s ! k) (s ! Suc k)"
  by (simp add: tooth1_step_def adjust_def Let_def) linarith

text \<open>What the loop leaves at a position: the round for it, run on its final predecessor.\<close>

lemma tooth1_out_Suc:
  assumes "Suc k < length s"
  shows "fold tooth1_step [Suc 0..<length s] s ! Suc k
       = adjust (fold tooth1_step [Suc 0..<length s] s ! k) (s ! Suc k)"
proof -
  let ?pre = "fold tooth1_step [Suc 0..<Suc k] s"
  let ?mid = "tooth1_step (Suc k) ?pre"
  let ?out = "fold tooth1_step [Suc 0..<length s] s"
  have out: "?out = fold tooth1_step [Suc (Suc k)..<length s] ?mid"
    using assms by (rule tooth1_fold_split)
  have a: "?out ! Suc k = ?mid ! Suc k"
    by (subst out, rule tooth1_fold_untouched) simp
  have b: "?out ! k = ?mid ! k"
    by (subst out, rule tooth1_fold_untouched) simp
  have c: "?mid ! k = ?pre ! k"
    by (rule tooth1_step_other) simp
  have d: "?pre ! Suc k = s ! Suc k"
    by (rule tooth1_fold_untouched) simp
  have len: "Suc k < length ?pre" using assms by simp
  have "?mid ! Suc k = adjust (?pre ! k) (?pre ! Suc k)"
    using len by (rule tooth1_step_nth)
  then show ?thesis
    by (simp only: a b c d)
qed

lemma tooth1_out_0:
  "fold tooth1_step [Suc 0..<length s] s ! 0 = s ! 0"
  by (rule tooth1_fold_untouched) simp

lemma MAX_nonneg: "0 \<le> MAX_THEORETICAL_WEAR"
  by (simp add: MAX_THEORETICAL_WEAR_def)

lemma adjust_range:
  "0 \<le> wear_depth_um cur \<Longrightarrow> wear_depth_um cur \<le> MAX_THEORETICAL_WEAR \<Longrightarrow>
   0 \<le> wear_depth_um (adjust prev cur) \<and> wear_depth_um (adjust prev cur) \<le> MAX_THEORETICAL_WEAR"
  using MAX_nonneg by (auto simp: adjust_def)

lemma adjust_mono:
  assumes "0 \<le> wear_depth_um prev" "wear_depth_um prev \<le> MAX_THEORETICAL_WEAR"
    and "0 \<le> wear_depth_um cur"
  shows "wear_depth_um prev \<le> wear_depth_um (adjust prev cur)"
proof -
  have "wear_depth_um prev \<le> wear_depth_um prev * 1.02" using assms(1) by simp
  with assms show ?thesis by (auto simp: adjust_def max_def min_def)
qed

lemma tooth1_out_range:
  assumes "\<forall>r \<in> set s. 0 \<le> wear_depth_um r \<and> wear_depth_um r \<le> MAX_THEORETICAL_WEAR"
    and "j < length s"
  shows "0 \<le> wear_depth_um (fold tooth1_step [Suc 0..<length s] s ! j) \<and>
         wear_depth_um (fold tooth1_step [Suc 0..<length s] s ! j) \<le> MAX_THEORETICAL_WEAR"
proof (cases j)
  case 0
  with assms show ?thesis by (simp add: tooth1_out_0)
next
  case (Suc k)
  have "0 \<le> wear_depth_um (s ! Suc k) \<and> wear_depth_um (s ! Suc k) \<le> MAX_THEORETICAL_WEAR"
    using assms Suc by simp
  then show ?thesis
    using assms(2) Suc by (simp only: tooth1_out_Suc adjust_range)
qed

lemma tooth1_out_step_mono:
  assumes "\<forall>r \<in> set s. 0 \<le> wear_depth_um r \<and> wear_depth_um r \<le> MAX_THEORETICAL_WEAR"
    and "Suc k < length s"
  shows "wear_depth_um (fold tooth1_step [Suc 0..<length s] s ! k)
       \<le> wear_depth_um (fold tooth1_step [Suc 0..<length s] s ! Suc k)"
proof -
  have k: "k < length s" using assms(2) by simp
  have sj: "0 \<le> wear_depth_um (s ! Suc k)" using assms by simp
  show ?thesis
    using tooth1_out_range[OF assms(1) k] sj
    by (simp only: tooth1_out_Suc[OF assms(2)] adjust_mono)
qed

text \<open>
  Claim C2, as amended. For every non-empty list of single-tooth records the list
  returned by \<open>enforce_monotonicity_for_tooth1\<close> is in ascending wear-case order, and
  \<^item> when every input depth lies in [0, MAX_THEORETICAL_WEAR] (what wear-depth resolution
    produces), the returned depths are non-decreasing;
  \<^item> for every adjacent pair, whenever the original depth at the later position, clamped
    at 0, is below the depth left at the earlier position, clamped at 0, the later depth
    becomes min(previous * 1.02, MAX_THEORETICAL_WEAR), clamped at 0, and its method tag,
    when the record has one, gets the suffix \<open>_monotonic\<close>.
\<close>

theorem enforce_tooth1_monotone_in_range:
  assumes "results \<noteq> []"
  shows "sorted (map wear_case (enforce_monotonicity_for_tooth1 results)) \<and>
    ((\<forall>r \<in> set results. 0 \<le> wear_depth_um r \<and> wear_depth_um r \<le> MAX_THEORETICAL_WEAR)
           \<longrightarrow> sorted (map wear_depth_um (enforce_monotonicity_for_tooth1 results))) \<and>
    (\<forall>k. Suc k < length results \<and>
             max 0 (wear_depth_um (sort_key wear_case results ! Suc k))
               < max 0 (wear_depth_um (enforce_monotonicity_for_tooth1 results ! k))
         \<longrightarrow> wear_depth_um (enforce_monotonicity_for_tooth1 results ! Suc k)
               = max 0 (min (max 0 (wear_depth_um (enforce_monotonicity_for_tooth1 results ! k)) * 1.02)
                           MAX_THEORETICAL_WEAR)
             \<and> method_tag (enforce_monotonicity_for_tooth1 results ! Suc k)
               = map_option (\<lambda>m. m @ ''_monotonic'') (method_tag (sort_key wear_case results ! Suc k)))"
proof -
  let ?s = "sort_key wear_case results"
  let ?out = "fold tooth1_step [Suc 0..<length ?s] ?s"
  have out: "enforce_monotonicity_for_tooth1 results = ?out"
    using assms by (simp add: enforce_monotonicity_for_tooth1_def Let_def)
  have A: "sorted (map wear_case ?out)"
    by (simp add: tooth1_fold_wear_case)
  have B: "sorted (map wear_depth_um ?out)"
    if "\<forall>r \<in> set results. 0 \<le> wear_depth_um r \<and> wear_depth_um r \<le> MAX_THEORETICAL_WEAR"
  proof -
    from that have r: "\<forall>r \<in> set ?s. 0 \<le> wear_depth_um r \<and> wear_depth_um r \<le> MAX_THEORETICAL_WEAR"
      by simp
    show ?thesis
      unfolding sorted_iff_nth_Suc using tooth1_out_step_mono[OF r] by simp
  qed
  have C: "wear_depth_um (?out ! Suc k)
               = max 0 (min (max 0 (wear_depth_um (?out ! k)) * 1.02) MAX_THEORETICAL_WEAR)
             \<and> method_tag (?out ! Suc k)
               = map_option (\<lambda>m. m @ ''_monotonic'') (method_tag (?s ! Suc k))"
    if "Suc k < length results"
      and "max 0 (wear_depth_um (?s ! Suc k)) < max 0 (wear_depth_um (?out ! k))" for k
  proof -
    have il: "Suc k < length ?s" using that(1) by simp
    have "?out ! Suc k = adjust (?out ! k) (?s ! Suc k)"
      using il by (rule tooth1_out_Suc)
    also have "\<dots> = (?s ! Suc k)\<lparr>wear_depth_um :=
          max 0 (min (max 0 (wear_depth_um (?out ! k)) * 1.02) MAX_THEORETICAL_WEAR),
          method_tag := map_option (\<lambda>m. m @ ''_monotonic'') (method_tag (?s ! Suc k))\<rparr>"
      unfolding adjust_def using that(2) by (simp only: if_True)
    finally show ?thesis by simp
  qed
  from A B C show ?thesis unfolding out by blast
qed

theorem enforce_tooth1_monotone_in_range_witness:
  "sorted (map wear_depth_um (enforce_monotonicity_for_tooth1
      [\<lparr>wear_case = 2, wear_depth_um = 50, method_tag = Some ''optimized''\<rparr>,
       \<lparr>wear_case = 1, wear_depth_um = 100, method_tag = Some ''manual_adjustment''\<rparr>])) \<and>
   enforce_monotonicity_for_tooth1
      [\<lparr>wear_case = 2, wear_depth_um = 50, method_tag = Some ''optimized''\<rparr>,
       \<lparr>wear_case = 1, wear_depth_um = 100, method_tag = Some ''manual_adjustment''\<rparr>]
   = [\<lparr>wear_case = 1, wear_depth_um = 100, method_tag = Some ''manual_adjustment''\<rparr>,
      \<lparr>wear_case = 2, wear_depth_um = 102, method_tag = Some ''optimized_monotonic''\<rparr>]"
proof -
  let ?rs = "[\<lparr>wear_case = 2, wear_depth_um = 50, method_tag = Some ''optimized''\<rparr>,
       \<lparr>wear_case = 1, wear_depth_um = 100, method_tag = Some ''manual_adjustment''\<rparr>]"
  have e: "enforce_monotonicity_for_tooth1 ?rs
     = [\<lparr>wear_case = 1, wear_depth_um = 100, method_tag = Some ''manual_adjustment''\<rparr>,
        \<lparr>wear_case = 2, wear_depth_um = 102, method_tag = Some ''optimized_monotonic''\<rparr>]"
    by code_simp
  have h: "?rs \<noteq> []" by simp
  have r: "\<forall>r \<in> set ?rs. 0 \<le> wear_depth_um r \<and> wear_depth_um r \<le> MAX_THEORETICAL_WEAR"
    by (simp add: MAX_THEORETICAL_WEAR_def)
  from enforce_tooth1_monotone_in_range[OF h] r
  have "sorted (map wear_depth_um (enforce_monotonicity_for_tooth1 ?rs))" by blast
  with e show ?thesis by simp
qed

text \<open>
  The claim as stated fails above the cap: a stored depth of 2000 followed by 100 leaves
  2000 followed by min(2040, 1500) = 1500.
\<close>

theorem enforce_tooth1_not_monotone_above_cap:
  "map wear_depth_um (enforce_monotonicity_for_tooth1
      [\<lparr>wear_case = 1, wear_depth_um = 2000, method_tag = Some ''feature_based''\<rparr>,
       \<lparr>wear_case = 2, wear_depth_um = 100, method_tag = Some ''feature_based''\<rparr>])
     = [2000, 1500] \<and>
   \<not> sorted (map wear_depth_um (enforce_monotonicity_for_tooth1
      [\<lparr>wear_case = 1, wear_depth_um = 2000, method_tag = Some ''feature_based''\<rparr>,
       \<lparr>wear_case = 2, wear_depth_um = 100, method_tag = Some ''feature_based''\<rparr>]))"
proof -
  have "map wear_depth_um (enforce_monotonicity_for_tooth1
      [\<lparr>wear_case = 1, wear_depth_um = 2000, method_tag = Some ''feature_based''\<rparr>,
       \<lparr>wear_case = 2, wear_depth_um = 100, method_tag = Some ''feature_based''\<rparr>])
     = [2000, 1500]"
    by code_simp
  then show ?thesis by simp
qed

text \<open>Negative depths are compared clamped but stored as they are.\<close>

lemma enforce_tooth1_negative_depths_kept:
  "map wear_depth_um (enforce_monotonicity_for_tooth1
      [\<lparr>wear_case = 1, wear_depth_um = -3, method_tag = Some ''feature_based''\<rparr>,
       \<lparr>wear_case = 2, wear_depth_um = -5, method_tag = Some ''feature_based''\<rparr>])
     = [-3, -5]"
  by code_simp

section \<open>Wear-depth resolution: proofs\<close>

lemma clamp_pyfloat:
  "\<exists>d. py_max (Float 0) (py_min p (Float MAX_THEORETICAL_WEAR)) = Float d \<and> 0 \<le> d \<and> d \<le> MAX_THEORETICAL_WEAR"
  by (cases p) (auto simp: py_max_def py_min_def MAX_THEORETICAL_WEAR_def)

lemma clamp_Float:
  "py_max (Float 0) (py_min (Float v) (Float MAX_THEORETICAL_WEAR)) = Float (max 0 (min v MAX_THEORETICAL_WEAR))"
  by (auto simp: py_max_def py_min_def MAX_THEORETICAL_WEAR_def)

text \<open>
  Claim C3. For every wear-case number, every feature dictionary and every choice of the
  three tables, single-tooth wear-depth resolution takes the manual-adjustment table
  first, the optimized table second, the ground-truth table third and the fallback
  \<open>area_loss * 1000\<close> (0 when the key is missing) last, tags the result
  \<open>manual_adjustment\<close>, \<open>optimized\<close>, \<open>actual_measurement\<close> or \<open>feature_based\<close>
  accordingly, and the depth is always a number in [0, MAX_THEORETICAL_WEAR], the chosen
  value clamped. With a manual table holding 1 -> 38.0, wear case 1 gives
  (38.0, manual_adjustment) whatever the features are.
\<close>

theorem resolution_precedence:
  fixes manual optimized actual :: "int \<rightharpoonup> real"
    and wear_num :: int and features :: "(string \<times> pyfloat) list"
  defines "r \<equiv> tooth1_wear_depth_resolution manual optimized actual wear_num features"
  shows
   "(\<forall>v. manual wear_num = Some v \<longrightarrow>
        r = (Float (max 0 (min v MAX_THEORETICAL_WEAR)), ''manual_adjustment'')) \<and>
    (\<forall>v. manual wear_num = None \<and> optimized wear_num = Some v \<longrightarrow>
        r = (Float (max 0 (min v MAX_THEORETICAL_WEAR)), ''optimized'')) \<and>
    (\<forall>v. manual wear_num = None \<and> optimized wear_num = None \<and> actual wear_num = Some v \<longrightarrow>
        r = (Float (max 0 (min v MAX_THEORETICAL_WEAR)), ''actual_measurement'')) \<and>
    (manual wear_num = None \<and> optimized wear_num = None \<and> actual wear_num = None \<longrightarrow>
        snd r = ''feature_based'' \<and>
        (\<forall>a. map_of features ''area_loss'' = Some (Float a) \<longrightarrow>
           fst r = Float (max 0 (min (a * 1000) MAX_THEORETICAL_WEAR))) \<and>
        (map_of features ''area_loss'' = None \<longrightarrow> fst r = Float 0)) \<and>
    (\<exists>d. fst r = Float d \<and> 0 \<le> d \<and> d \<le> MAX_THEORETICAL_WEAR) \<and>
    (manual 1 = Some 38.0 \<longrightarrow>
        tooth1_wear_depth_resolution manual optimized actual 1 features
          = (Float 38.0, ''manual_adjustment''))"
proof -
  have A: "r = (Float (max 0 (min v MAX_THEORETICAL_WEAR)), ''manual_adjustment'')"
    if "manual wear_num = Some v" for v
    using that by (simp add: r_def tooth1_wear_depth_resolution_def clamp_Float)
  have B: "r = (Float (max 0 (min v MAX_THEORETICAL_WEAR)), ''optimized'')"
    if "manual wear_num = None" "optimized wear_num = Some v" for v
    using that by (simp add: r_def tooth1_wear_depth_resolution_def clamp_Float)
  have C: "r = (Float (max 0 (min v MAX_THEORETICAL_WEAR)), ''actual_measurement'')"
    if "manual wear_num = None" "optimized wear_num = None" "actual wear_num = Some v" for v
    using that by (simp add: r_def tooth1_wear_depth_resolution_def clamp_Float)
  have D: "snd r = ''feature_based'' \<and>
        (\<forall>a. map_of features ''area_loss'' = Some (Float a) \<longrightarrow>
           fst r = Float (max 0 (min (a * 1000) MAX_THEORETICAL_WEAR))) \<and>
        (map_of features ''area_loss'' = None \<longrightarrow> fst r = Float 0)"
    if "manual wear_num = None" "optimized wear_num = None" "actual wear_num = None"
    using that MAX_nonneg
    by (auto simp: r_def tooth1_wear_depth_resolution_def clamp_Float Let_def)
  have E: "\<exists>d. fst r = Float d \<and> 0 \<le> d \<and> d \<le> MAX_THEORETICAL_WEAR"
    unfolding r_def tooth1_wear_depth_resolution_def Let_def
    by (simp add: clamp_pyfloat split: option.splits prod.splits)
  have F: "tooth1_wear_depth_resolution manual optimized actual 1 features
          = (Float 38.0, ''manual_adjustment'')" if "manual 1 = Some 38.0"
    using that
    by (simp add: tooth1_wear_depth_resolution_def py_max_def py_min_def MAX_THEORETICAL_WEAR_def)
  from A B C D E F show ?thesis by blast
qed

lemma ground_truth_cases:
  assumes "tooth1_ground_truth wc = Some b"
  shows "(manual_adjustments wc = Some b) \<or>
         (manual_adjustments wc = None \<and> optimized_results_w7_plus wc = Some b) \<or>
         (wc = 3 \<and> b = 115 \<and> manual_adjustments wc = None \<and> optimized_results_w7_plus wc = None)"
  using assms
  unfolding tooth1_ground_truth_def manual_adjustments_def optimized_results_w7_plus_def
  by (simp split: if_splits)

lemma ground_truth_range:
  "tooth1_ground_truth wc = Some b \<Longrightarrow> 0 \<le> b \<and> b \<le> MAX_THEORETICAL_WEAR"
  unfolding tooth1_ground_truth_def MAX_THEORETICAL_WEAR_def
  by (simp split: if_splits)

theorem resolution_precedence_witness:
  "tooth1_wear_depth_resolution manual_adjustments optimized_results_w7_plus
      (load_ground_truth_data None) 1 [(''area_loss'', Float 0.5)]
     = (Float 38.0, ''manual_adjustment'') \<and>
   tooth1_wear_depth_resolution manual_adjustments optimized_results_w7_plus
      (load_ground_truth_data None) 7 [(''area_loss'', Float 0.5)]
     = (Float 258.7, ''optimized'') \<and>
   tooth1_wear_depth_resolution manual_adjustments optimized_results_w7_plus
      (load_ground_truth_data None) 3 [(''area_loss'', Float 0.5)]
     = (Float 115, ''actual_measurement'') \<and>
   tooth1_wear_depth_resolution manual_adjustments optimized_results_w7_plus
      (load_ground_truth_data None) 40 [(''area_loss'', Float 0.5)]
     = (Float 500, ''feature_based'')"
proof -
  have m: "manual_adjustments 1 = Some 38.0" "manual_adjustments 7 = None"
    "manual_adjustments 3 = None" "manual_adjustments 40 = None"
    by (simp_all add: manual_adjustments_def)
  have p: "optimized_results_w7_plus 7 = Some 258.7" "optimized_results_w7_plus 3 = None"
    "optimized_results_w7_plus 40 = None"
    by (simp_all add: optimized_results_w7_plus_def)
  have a: "load_ground_truth_data None 3 = Some 115" "load_ground_truth_data None 40 = None"
    by (simp_all add: load_ground_truth_data_def hardcoded_measurements_def)
  have f: "map_of [(''area_loss'', Float 0.5)] ''area_loss'' = Some (Float 0.5)" by simp
  have c: "max 0 (min (258.7::real) MAX_THEORETICAL_WEAR) = 258.7"
    "max 0 (min (115::real) MAX_THEORETICAL_WEAR) = 115"
    "max 0 (min (0.5 * 1000 :: real) MAX_THEORETICAL_WEAR) = 500"
    by (simp_all add: MAX_THEORETICAL_WEAR_def)
  note t = resolution_precedence[of manual_adjustments _ optimized_results_w7_plus
      "load_ground_truth_data None" "[(''area_loss'', Float 0.5)]"]
  have "tooth1_wear_depth_resolution manual_adjustments optimized_results_w7_plus
      (load_ground_truth_data None) 1 [(''area_loss'', Float 0.5)]
     = (Float 38.0, ''manual_adjustment'')"
    using t[of 1] m by blast
  moreover have "tooth1_wear_depth_resolution manual_adjustments optimized_results_w7_plus
      (load_ground_truth_data None) 7 [(''area_loss'', Float 0.5)]
     = (Float 258.7, ''optimized'')"
    using t[of 7] m p c by metis
  moreover have "tooth1_wear_depth_resolution manual_adjustments optimized_results_w7_plus
      (load_ground_truth_data None) 3 [(''area_loss'', Float 0.5)]
     = (Float 115, ''actual_measurement'')"
    using t[of 3] m p a c by metis
  moreover have "tooth1_wear_depth_resolution manual_adjustments optimized_results_w7_plus
      (load_ground_truth_data None) 40 [(''area_loss'', Float 0.5)]
     = (Float 500, ''feature_based'')"
    using t[of 40] m p a f c by (metis prod.collapse)
  ultimately show ?thesis by blast
qed

text \<open>
  Where the two pipelines do agree: for every wear case of the multi-tooth table other
  than 3, and for wear case 3 when the ground-truth table gives 115 (the hardcoded
  fallback does), the multi-tooth prediction for tooth number 1 is the depth the
  single-tooth resolution gives; every other tooth number gets the base value times the
  value \<open>np.random.normal(1.0, 0.05)\<close> returns, clamped into [0, MAX_THEORETICAL_WEAR].
\<close>

lemma pipelines_agree_outside_ground_truth:
  assumes "tooth1_ground_truth wc = Some b"
    and "wc = 3 \<longrightarrow> load_ground_truth_data csv 3 = Some 115"
  shows "predict_wear_depth_from_features fs wc 1 z = b \<and>
         fst (tooth1_wear_depth_resolution manual_adjustments optimized_results_w7_plus
                (load_ground_truth_data csv) wc features) = Float b \<and>
         (\<forall>t. t \<noteq> 1 \<longrightarrow>
            predict_wear_depth_from_features fs wc t z
              = max 0 (min (b * np_random_normal 1.0 0.05 z) MAX_THEORETICAL_WEAR) \<and>
            0 \<le> predict_wear_depth_from_features fs wc t z \<and>
            predict_wear_depth_from_features fs wc t z \<le> MAX_THEORETICAL_WEAR)"
proof -
  have r: "0 \<le> b" "b \<le> MAX_THEORETICAL_WEAR"
    using ground_truth_range[OF assms(1)] by auto
  then have cl: "max 0 (min b MAX_THEORETICAL_WEAR) = b" by simp
  have one: "predict_wear_depth_from_features fs wc 1 z = b"
    using assms(1) by (simp add: predict_wear_depth_from_features_def)
  have single: "fst (tooth1_wear_depth_resolution manual_adjustments optimized_results_w7_plus
                (load_ground_truth_data csv) wc features) = Float b"
    using ground_truth_cases[OF assms(1)] assms(2) cl
    by (auto simp: tooth1_wear_depth_resolution_def clamp_Float)
  have others: "predict_wear_depth_from_features fs wc t z
              = max 0 (min (b * np_random_normal 1.0 0.05 z) MAX_THEORETICAL_WEAR) \<and>
            0 \<le> predict_wear_depth_from_features fs wc t z \<and>
            predict_wear_depth_from_features fs wc t z \<le> MAX_THEORETICAL_WEAR"
    if "t \<noteq> 1" for t
    using that assms(1) MAX_nonneg
    by (simp add: predict_wear_depth_from_features_def Let_def)
  from one single others show ?thesis by blast
qed

text \<open>
  Claim C8, on wear case 3. \<open>predict_wear_depth_from_features\<close> says it uses "the same
  ground truth data as single tooth analysis" and, for tooth 1, "the exact same value
  as single tooth analysis", but it reads a table of its own, written into the function,
  while the single-tooth pipeline takes wear case 3 from \<open>actual_measurements\<close>, which
  \<open>load_ground_truth_data\<close> reads from \<open>ground_truth_measurements.csv\<close> when that file
  exists. With a file that gives 120.5 for wear case 3 the single-tooth pipeline resolves
  120.5 (tagged \<open>actual_measurement\<close>) and the multi-tooth pipeline returns 115 for
  tooth 1.
\<close>

theorem pipelines_differ_at_wear_case_3:
  "tooth1_wear_depth_resolution manual_adjustments optimized_results_w7_plus
      (load_ground_truth_data (Some remeasured_csv)) 3 []
     = (Float 120.5, ''actual_measurement'') \<and>
   predict_wear_depth_from_features [] 3 1 0 = 115"
proof -
  have m: "manual_adjustments 3 = None" by (simp add: manual_adjustments_def)
  have p: "optimized_results_w7_plus 3 = None" by (simp add: optimized_results_w7_plus_def)
  have a: "load_ground_truth_data (Some remeasured_csv) 3 = Some 120.5"
    by (simp add: load_ground_truth_data_def remeasured_csv_def)
  have "tooth1_wear_depth_resolution manual_adjustments optimized_results_w7_plus
      (load_ground_truth_data (Some remeasured_csv)) 3 []
     = (Float 120.5, ''actual_measurement'')"
    by (simp add: tooth1_wear_depth_resolution_def m p a py_max_def py_min_def
        MAX_THEORETICAL_WEAR_def)
  moreover have "predict_wear_depth_from_features [] 3 1 0 = 115"
    by (simp add: predict_wear_depth_from_features_def tooth1_ground_truth_def)
  ultimately show ?thesis by simp
qed

section \<open>Feature extraction: proofs\<close>

lemma py_div_guarded: "py_div a (max x 1) = Some (a / max x 1)"
  by (simp add: py_div_def max_def)

lemma py_div_guarded_int: "py_div a (real_of_int (max n 1)) = Some (a / real_of_int (max n 1))"
  by (simp add: py_div_def max_def)

lemma estimate_total:
  "estimate_scale_factor_from_gear a =
     Some (if 0 < a
           then max 4 (min (sqrt (STANDARD_TOOTH_THICKNESS * STANDARD_TOOTH_HEIGHT / a) * 1000 * 0.8) 10)
           else 6)"
  by (simp add: estimate_scale_factor_from_gear_def py_div_def Let_def)

lemma estimate_bounds:
  "estimate_scale_factor_from_gear a = Some s \<Longrightarrow> 4 \<le> s \<and> s \<le> 10"
  by (auto simp: estimate_total split: if_splits)

lemma unscaled_features_total:
  "\<exists>raw. unscaled_features healthy worn = Some raw \<and>
     map fst raw = feature_keys"
  unfolding unscaled_features_def Let_def feature_keys_def
  by (simp add: py_div_guarded py_div_guarded_int)

lemma map_fst_scale [simp]: "map fst (scale_loss_features e fs) = map fst fs"
  by (induction fs) (auto simp: scale_loss_features_def)

text \<open>
  Claim C9. For every pair of contours, whatever OpenCV measures on them (zero areas,
  perimeters, boxes and hulls included), no division of \<open>extract_early_wear_features\<close>
  has a zero divisor: every Python division divides by \<open>max(x, 1)\<close>, the one of
  \<open>estimate_scale_factor_from_gear\<close> is taken only for a positive area, so the function
  raises no \<open>ZeroDivisionError\<close> and returns the dictionary with its 22 keys.
\<close>

theorem extract_features_never_divides_by_zero:
  "\<exists>features. extract_early_wear_features healthy worn target = Some features \<and>
     map fst features = feature_keys"
proof -
  obtain raw where raw: "unscaled_features healthy worn = Some raw"
    and keys: "map fst raw = feature_keys"
    using unscaled_features_total[of healthy worn] by (elim exE conjE)
  show ?thesis
    by (simp add: extract_early_wear_features_def effective_scale_factor_def estimate_total raw keys)
qed

lemma scaled_key_tests:
  "sublist ''loss'' ''area_loss''" "sublist ''loss'' ''area_loss_squared''"
  "sublist ''loss'' ''area_loss_cubic''" "sublist ''loss'' ''area_loss_sqrt''"
  "sublist ''loss'' ''perimeter_loss''" "sublist ''loss'' ''height_loss''"
  "sublist ''loss'' ''width_loss''" "sublist ''loss'' ''height_loss_squared''"
  "sublist ''loss'' ''hull_area_loss''" "sublist ''loss'' ''solidity_loss''"
  "sublist ''diff'' ''dt_max_diff''" "sublist ''diff'' ''dt_mean_diff''"
  "sublist ''diff'' ''dt_median_diff''" "sublist ''diff'' ''dt_std_diff''"
  "sublist ''loss'' ''edge_density_loss''"
  by code_simp+

lemma unscaled_key_tests:
  "\<not> sublist ''loss'' ''area_ratio''" "\<not> sublist ''diff'' ''area_ratio''"
  "\<not> sublist ''loss'' ''perimeter_ratio''" "\<not> sublist ''diff'' ''perimeter_ratio''"
  "\<not> sublist ''loss'' ''height_ratio''" "\<not> sublist ''diff'' ''height_ratio''"
  "\<not> sublist ''loss'' ''width_ratio''" "\<not> sublist ''diff'' ''width_ratio''"
  "\<not> sublist ''loss'' ''hull_area_ratio''" "\<not> sublist ''diff'' ''hull_area_ratio''"
  "\<not> sublist ''loss'' ''solidity_ratio''" "\<not> sublist ''diff'' ''solidity_ratio''"
  "\<not> sublist ''loss'' ''edge_density_ratio''" "\<not> sublist ''diff'' ''edge_density_ratio''"
  by code_simp+

lemma map_of_scale_loss_features:
  "map_of (scale_loss_features e fs) k =
     (if sublist ''loss'' k \<or> sublist ''diff'' k
      then map_option (\<lambda>v. fmul v e) (map_of fs k) else map_of fs k)"
  by (induction fs) (auto simp: scale_loss_features_def)

lemma feature_keys_split: "set feature_keys = set loss_diff_keys \<union> set ratio_keys"
  unfolding feature_keys_def loss_diff_keys_def ratio_keys_def by (simp add: insert_commute)

text \<open>
  Claim C6, as amended. For a healthy contour of area a > 0 and any target scale t, the
  geometry estimate s is sqrt(expected tooth area / a) * 1000 * 0.8 clamped into
  [4.0, 10.0], and the factor applied to the features is the blend 0.3 * t + 0.7 * s of
  t with that clamped estimate. The blend is not clamped again: it lies in [4.0, 10.0]
  whenever t does (the default 6.0 does). Every key containing \<open>loss\<close> or \<open>diff\<close> has its
  value multiplied by the blend, every ratio key keeps its value, and these are all the
  keys.
\<close>

theorem effective_scale_factor_blends_clamped_estimate:
  assumes "0 < contourArea healthy"
  defines "s \<equiv> max 4 (min (sqrt (STANDARD_TOOTH_THICKNESS * STANDARD_TOOTH_HEIGHT
                                      / contourArea healthy) * 1000 * 0.8) 10)"
  shows "estimate_scale_factor_from_gear (contourArea healthy) = Some s \<and> 4 \<le> s \<and> s \<le> 10 \<and>
    effective_scale_factor t (contourArea healthy) = Some (0.3 * t + 0.7 * s) \<and>
    (4 \<le> t \<and> t \<le> 10 \<longrightarrow> 4 \<le> 0.3 * t + 0.7 * s \<and> 0.3 * t + 0.7 * s \<le> 10) \<and>
    (\<exists>raw out. unscaled_features healthy worn = Some raw \<and>
        extract_early_wear_features healthy worn t = Some out \<and>
        map fst out = feature_keys \<and>
        set feature_keys = set loss_diff_keys \<union> set ratio_keys \<and>
        (\<forall>k \<in> set loss_diff_keys.
            map_of out k = map_option (\<lambda>v. fmul v (0.3 * t + 0.7 * s)) (map_of raw k)) \<and>
        (\<forall>k \<in> set ratio_keys. map_of out k = map_of raw k))"
proof -
  have est: "estimate_scale_factor_from_gear (contourArea healthy) = Some s"
    using assms(1) by (simp add: estimate_total s_def)
  have b: "4 \<le> s" "s \<le> 10" using estimate_bounds[OF est] by auto
  have eff: "effective_scale_factor t (contourArea healthy) = Some (0.3 * t + 0.7 * s)"
    by (simp add: effective_scale_factor_def est)
  have rng: "4 \<le> 0.3 * t + 0.7 * s \<and> 0.3 * t + 0.7 * s \<le> 10" if "4 \<le> t" "t \<le> 10"
    using that b by simp
  obtain raw where raw: "unscaled_features healthy worn = Some raw"
    and keys: "map fst raw = feature_keys"
    using unscaled_features_total[of healthy worn] by (elim exE conjE)
  let ?out = "scale_loss_features (0.3 * t + 0.7 * s) raw"
  have out: "extract_early_wear_features healthy worn t = Some ?out"
    by (simp add: extract_early_wear_features_def eff raw)
  have l: "\<forall>k \<in> set loss_diff_keys.
            map_of ?out k = map_option (\<lambda>v. fmul v (0.3 * t + 0.7 * s)) (map_of raw k)"
    unfolding loss_diff_keys_def
    by (simp add: map_of_scale_loss_features scaled_key_tests)
  have r: "\<forall>k \<in> set ratio_keys. map_of ?out k = map_of raw k"
    unfolding ratio_keys_def
    by (simp add: map_of_scale_loss_features unscaled_key_tests)
  have "map fst ?out = feature_keys" using keys by simp
  with raw out l r feature_keys_split have
    "\<exists>raw out. unscaled_features healthy worn = Some raw \<and>
        extract_early_wear_features healthy worn t = Some out \<and>
        map fst out = feature_keys \<and>
        set feature_keys = set loss_diff_keys \<union> set ratio_keys \<and>
        (\<forall>k \<in> set loss_diff_keys.
            map_of out k = map_option (\<lambda>v. fmul v (0.3 * t + 0.7 * s)) (map_of raw k)) \<and>
        (\<forall>k \<in> set ratio_keys. map_of out k = map_of raw k)"
    by blast
  with est b eff rng show ?thesis by blast
qed

lemma estimate_at_1000: "estimate_scale_factor_from_gear 1000 = Some 10"
proof -
  let ?x = "STANDARD_TOOTH_THICKNESS * STANDARD_TOOTH_HEIGHT / 1000"
  have x: "?x = pi * (81 / 8000)"
    by (simp add: STANDARD_TOOTH_THICKNESS_def STANDARD_TOOTH_HEIGHT_def STANDARD_ADDENDUM_def
        STANDARD_DEDENDUM_def GEAR_MODULE_def)
  have "(1 / 80)\<^sup>2 \<le> pi * (81 / 8000)" using pi_ge_two by (simp add: power2_eq_square)
  then have "1 / 80 \<le> sqrt (pi * (81 / 8000))" by (rule real_le_rsqrt)
  then have "10 \<le> sqrt ?x * 1000 * 0.8" unfolding x by simp
  then show ?thesis by (simp add: estimate_total)
qed

theorem effective_scale_factor_blends_clamped_estimate_witness:
  "estimate_scale_factor_from_gear 1000 = Some 10 \<and>
   effective_scale_factor 6.0 1000 = Some 8.8"
proof -
  let ?h = "\<lparr>contourArea = 1000, arcLength = 130, m00 = 1000, m10 = 100000, m01 = 100000,
            bbox_w = 25, bbox_h = 40, hull_area = 1010, dt_max = 12, dt_mean = 0.1,
            dt_median = 0, dt_std = 0.4, edge_sum = 33150\<rparr>"
  have a: "0 < contourArea ?h" by simp
  have "effective_scale_factor 6.0 (contourArea ?h)
      = Some (0.3 * 6.0 + 0.7 * max 4 (min (sqrt (STANDARD_TOOTH_THICKNESS * STANDARD_TOOTH_HEIGHT
                                      / contourArea ?h) * 1000 * 0.8) 10))"
    using effective_scale_factor_blends_clamped_estimate[OF a, of "6.0" ?h] by blast
  moreover have "estimate_scale_factor_from_gear (contourArea ?h)
      = Some (max 4 (min (sqrt (STANDARD_TOOTH_THICKNESS * STANDARD_TOOTH_HEIGHT
                                      / contourArea ?h) * 1000 * 0.8) 10))"
    using effective_scale_factor_blends_clamped_estimate[OF a, of "6.0" ?h] by blast
  ultimately show ?thesis using estimate_at_1000 by simp
qed

text \<open>
  The blend itself is not clamped: a target of 100 micrometers per pixel gives
  0.3 * 100 + 0.7 * 10 = 37.
\<close>

theorem effective_scale_factor_outside_range:
  "effective_scale_factor 100 1000 = Some 37 \<and> \<not> (37 \<le> (10::real))"
  by (simp add: effective_scale_factor_def estimate_at_1000)

theorem extract_features_never_divides_by_zero_witness:
  "extract_early_wear_features
     \<lparr>contourArea = 0, arcLength = 0, m00 = 0, m10 = 0, m01 = 0, bbox_w = 0, bbox_h = 0,
      hull_area = 0, dt_max = 0, dt_mean = 0, dt_median = 0, dt_std = 0, edge_sum = 0\<rparr>
     \<lparr>contourArea = 0, arcLength = 0, m00 = 0, m10 = 0, m01 = 0, bbox_w = 0, bbox_h = 0,
      hull_area = 0, dt_max = 0, dt_mean = 0, dt_median = 0, dt_std = 0, edge_sum = 0\<rparr>
     6.0 \<noteq> None"
  using extract_features_never_divides_by_zero[of
     "\<lparr>contourArea = 0, arcLength = 0, m00 = 0, m10 = 0, m01 = 0, bbox_w = 0, bbox_h = 0,
      hull_area = 0, dt_max = 0, dt_mean = 0, dt_median = 0, dt_std = 0, edge_sum = 0\<rparr>"
     "\<lparr>contourArea = 0, arcLength = 0, m00 = 0, m10 = 0, m01 = 0, bbox_w = 0, bbox_h = 0,
      hull_area = 0, dt_max = 0, dt_mean = 0, dt_median = 0, dt_std = 0, edge_sum = 0\<rparr>" "6.0"]
  by auto

section \<open>Tooth matching: proofs\<close>

lemma match_step_positive:
  assumes "0 < max_distance"
  shows "match_step healthy max_distance cand best =
     (if passes_gates healthy max_distance (snd cand) \<and>
         flt (Float (weighted_score healthy max_distance (snd cand))) (fst best)
      then (Float (weighted_score healthy max_distance (snd cand)), Some cand) else best)"
proof -
  have nd: "np_true_divide d max_distance = Float (d / max_distance)" for d
    using assms by (simp add: np_true_divide_def)
  show ?thesis
    unfolding match_step_def Let_def nd passes_gates_def weighted_score_def
      perimeter_difference_def
    by (simp add: algebra_simps)
qed

lemma match_inv_step:
  assumes "0 < max_distance" and "match_inv healthy max_distance seen st"
  shows "match_inv healthy max_distance (seen @ [cand]) (match_step healthy max_distance cand st)"
proof -
  obtain j d where cand: "cand = (j, d)" by (cases cand)
  obtain bs bm where st: "st = (bs, bm)" by (cases st)
  show ?thesis
  proof (cases bm)
    case None
    with assms(2) st have "bs = PosInf"
      and "\<forall>(j, d) \<in> set seen. \<not> passes_gates healthy max_distance d"
      by (auto simp: match_inv_def)
    then show ?thesis
      unfolding match_step_positive[OF assms(1)] using None st cand
      by (auto simp: match_inv_def)
  next
    case (Some ic)
    obtain i c where ic: "ic = (i, c)" by (cases ic)
    from assms(2) st Some ic have inv: "(i, c) \<in> set seen" "passes_gates healthy max_distance c"
      "bs = Float (weighted_score healthy max_distance c)"
      "\<forall>(j, d) \<in> set seen. passes_gates healthy max_distance d \<longrightarrow>
          weighted_score healthy max_distance c \<le> weighted_score healthy max_distance d"
      by (auto simp: match_inv_def)
    show ?thesis
    proof (cases "passes_gates healthy max_distance d \<and>
        weighted_score healthy max_distance d < weighted_score healthy max_distance c")
      case True
      then have "match_step healthy max_distance cand st
          = (Float (weighted_score healthy max_distance d), Some (j, d))"
        unfolding match_step_positive[OF assms(1)] using st cand inv(3) by simp
      moreover have "\<forall>(j', d') \<in> set seen. passes_gates healthy max_distance d' \<longrightarrow>
          weighted_score healthy max_distance d \<le> weighted_score healthy max_distance d'"
        using inv(4) True by fastforce
      ultimately show ?thesis using True cand by (auto simp: match_inv_def)
    next
      case False
      then have "match_step healthy max_distance cand st = st"
        unfolding match_step_positive[OF assms(1)] using st cand inv(3) by auto
      moreover have "passes_gates healthy max_distance d \<longrightarrow>
          weighted_score healthy max_distance c \<le> weighted_score healthy max_distance d"
        using False by auto
      ultimately show ?thesis using inv st Some ic cand by (auto simp: match_inv_def)
    qed
  qed
qed

lemma match_inv_fold:
  assumes "0 < max_distance" and "match_inv healthy max_distance seen st"
  shows "match_inv healthy max_distance (seen @ cands)
           (fold (match_step healthy max_distance) cands st)"
  using assms(2)
proof (induction cands arbitrary: seen st)
  case Nil
  then show ?case by simp
next
  case (Cons cand cands)
  from Cons.IH[OF match_inv_step[OF assms(1) Cons.prems, of cand]] show ?case by simp
qed

lemma match_inv_final:
  assumes "0 < max_distance"
  shows "match_inv healthy max_distance cands
           (fold (match_step healthy max_distance) cands (PosInf, None))"
proof -
  have "match_inv healthy max_distance [] (PosInf, None)" by (simp add: match_inv_def)
  from match_inv_fold[OF assms this, of cands] show ?thesis by simp
qed

lemma centroid_distance_nonneg: "0 \<le> centroid_distance healthy worn"
  by (simp add: centroid_distance_def Let_def)

lemma perimeter_difference_nonneg: "0 \<le> perimeter_difference healthy worn"
  by (simp add: perimeter_difference_def)

text \<open>
  Claim C4, as amended. For a positive maxDistance, every healthy contour and every
  finite sequence of candidates: tooth matching returns none (the pair of nones on an
  empty sequence) when no candidate passes the gates (area within [20, 5000], centroid
  distance at most maxDistance); otherwise it returns a candidate of the sequence that
  passes the gates and whose score 0.2 * (distance / maxDistance) + 0.5 * (area
  difference / max(healthy area, 1)) + 0.3 * (perimeter difference / max(healthy
  perimeter, 1)) is minimal among those that pass. In particular a candidate with zero
  centroid distance and the healthy tooth's area is the one returned, provided that
  area lies within [20, 5000] and every other candidate that passes the gates is
  noisier: its perimeter difference is at least the candidate's, and its distance is
  positive or its area differs.
\<close>

theorem tooth_matching_selects_minimum:
  assumes "0 < max_distance"
  shows
   "((\<forall>(i, c) \<in> set candidates. \<not> passes_gates healthy max_distance c) \<longrightarrow>
       find_most_similar_tooth_contour_early_wear healthy candidates max_distance
         \<in> {NonePair, NoMatch}) \<and>
    ((\<exists>(i, c) \<in> set candidates. passes_gates healthy max_distance c) \<longrightarrow>
       (\<exists>i c. find_most_similar_tooth_contour_early_wear healthy candidates max_distance
                 = Match i c \<and>
              (i, c) \<in> set candidates \<and> passes_gates healthy max_distance c \<and>
              (\<forall>(j, d) \<in> set candidates. passes_gates healthy max_distance d \<longrightarrow>
                 weighted_score healthy max_distance c \<le> weighted_score healthy max_distance d))) \<and>
    (\<forall>i c. (i, c) \<in> set candidates \<and>
            centroid_distance healthy c = 0 \<and> contourArea c = contourArea healthy \<and>
            20 \<le> contourArea c \<and> contourArea c \<le> 5000 \<and>
            (\<forall>(j, d) \<in> set candidates. (j, d) \<noteq> (i, c) \<and> passes_gates healthy max_distance d \<longrightarrow>
               perimeter_difference healthy c \<le> perimeter_difference healthy d \<and>
               (0 < centroid_distance healthy d \<or> contourArea d \<noteq> contourArea healthy))
        \<longrightarrow> find_most_similar_tooth_contour_early_wear healthy candidates max_distance
              = Match i c)"
proof -
  let ?st = "fold (match_step healthy max_distance) candidates (PosInf, None)"
  let ?res = "find_most_similar_tooth_contour_early_wear healthy candidates max_distance"
  have inv: "match_inv healthy max_distance candidates ?st"
    using assms by (rule match_inv_final)
  have A: "?res \<in> {NonePair, NoMatch}"
    if "\<forall>(i, c) \<in> set candidates. \<not> passes_gates healthy max_distance c"
  proof (cases "snd ?st")
    case None
    then show ?thesis by (simp add: find_most_similar_tooth_contour_early_wear_def)
  next
    case (Some ic)
    with inv that show ?thesis by (cases ic) (auto simp: match_inv_def)
  qed
  have B: "\<exists>i c. ?res = Match i c \<and> (i, c) \<in> set candidates \<and>
              passes_gates healthy max_distance c \<and>
              (\<forall>(j, d) \<in> set candidates. passes_gates healthy max_distance d \<longrightarrow>
                 weighted_score healthy max_distance c \<le> weighted_score healthy max_distance d)"
    if "\<exists>(i, c) \<in> set candidates. passes_gates healthy max_distance c"
  proof (cases "snd ?st")
    case None
    with inv that show ?thesis by (auto simp: match_inv_def)
  next
    case (Some ic)
    obtain i c where ic: "ic = (i, c)" by (cases ic)
    from that have ne: "candidates \<noteq> []" by auto
    from inv Some ic have "(i, c) \<in> set candidates" "passes_gates healthy max_distance c"
      "\<forall>(j, d) \<in> set candidates. passes_gates healthy max_distance d \<longrightarrow>
          weighted_score healthy max_distance c \<le> weighted_score healthy max_distance d"
      by (auto simp: match_inv_def)
    moreover have "?res = Match i c"
      using Some ic ne by (simp add: find_most_similar_tooth_contour_early_wear_def)
    ultimately show ?thesis by blast
  qed
  have C: "?res = Match i c"
    if mem: "(i, c) \<in> set candidates"
      and exact: "centroid_distance healthy c = 0" "contourArea c = contourArea healthy"
      and band: "20 \<le> contourArea c" "contourArea c \<le> 5000"
      and noisier: "\<forall>(j, d) \<in> set candidates. (j, d) \<noteq> (i, c) \<and> passes_gates healthy max_distance d \<longrightarrow>
               perimeter_difference healthy c \<le> perimeter_difference healthy d \<and>
               (0 < centroid_distance healthy d \<or> contourArea d \<noteq> contourArea healthy)"
    for i c
  proof -
    have gc: "passes_gates healthy max_distance c"
      using exact band assms by (simp add: passes_gates_def)
    then have "\<exists>(i, c) \<in> set candidates. passes_gates healthy max_distance c"
      using mem by auto
    from B[OF this] obtain j d where res: "?res = Match j d" and jd: "(j, d) \<in> set candidates"
      and gd: "passes_gates healthy max_distance d"
      and le: "weighted_score healthy max_distance d \<le> weighted_score healthy max_distance c"
      using mem gc by blast
    have wc: "weighted_score healthy max_distance c = 0.3 * perimeter_difference healthy c"
      using exact by (simp add: weighted_score_def)
    have "(j, d) = (i, c)"
    proof (rule ccontr)
      assume ne: "(j, d) \<noteq> (i, c)"
      with noisier jd gd have p: "perimeter_difference healthy c \<le> perimeter_difference healthy d"
        and q: "0 < centroid_distance healthy d \<or> contourArea d \<noteq> contourArea healthy"
        by auto
      have "0 < 0.2 * (centroid_distance healthy d / max_distance)
            + 0.5 * (\<bar>contourArea d - contourArea healthy\<bar> / max (contourArea healthy) 1)"
      proof (cases "0 < centroid_distance healthy d")
        case True
        then have "0 < centroid_distance healthy d / max_distance" using assms by simp
        moreover have "0 \<le> \<bar>contourArea d - contourArea healthy\<bar> / max (contourArea healthy) 1"
          by simp
        ultimately show ?thesis by linarith
      next
        case False
        with q have "0 < \<bar>contourArea d - contourArea healthy\<bar>" by simp
        then have "0 < \<bar>contourArea d - contourArea healthy\<bar> / max (contourArea healthy) 1"
          by simp
        moreover have "0 \<le> centroid_distance healthy d / max_distance"
          using assms centroid_distance_nonneg[of healthy d] by simp
        ultimately show ?thesis by linarith
      qed
      with p have "weighted_score healthy max_distance c < weighted_score healthy max_distance d"
        unfolding wc by (simp add: weighted_score_def)
      with le show False by simp
    qed
    with res show ?thesis by simp
  qed
  from A B C show ?thesis by blast
qed

theorem tooth_matching_selects_minimum_witness:
  "find_most_similar_tooth_contour_early_wear healthy_1000
      [(1, noisy_900), (2, healthy_1000)] 300 = Match 2 healthy_1000"
proof -
  let ?cs = "[(1::int, noisy_900), (2, healthy_1000)]"
  let ?prem = "((2::int), healthy_1000) \<in> set ?cs \<and>
            centroid_distance healthy_1000 healthy_1000 = 0 \<and>
            contourArea healthy_1000 = contourArea healthy_1000 \<and>
            20 \<le> contourArea healthy_1000 \<and> contourArea healthy_1000 \<le> 5000 \<and>
            (\<forall>(j, d) \<in> set ?cs.
               (j, d) \<noteq> (2, healthy_1000) \<and> passes_gates healthy_1000 300 d \<longrightarrow>
               perimeter_difference healthy_1000 healthy_1000 \<le> perimeter_difference healthy_1000 d \<and>
               (0 < centroid_distance healthy_1000 d \<or> contourArea d \<noteq> contourArea healthy_1000))"
  have h: "0 < (300::real)" by simp
  have d: "centroid_distance healthy_1000 healthy_1000 = 0"
    "centroid_distance healthy_1000 noisy_900 = 0"
    by (simp_all add: centroid_distance_def calculate_contour_centroid_def healthy_1000_def
        noisy_900_def)
  have p: "perimeter_difference healthy_1000 healthy_1000 = 0"
    "perimeter_difference healthy_1000 noisy_900 = 1 / 13"
    by (simp_all add: perimeter_difference_def healthy_1000_def noisy_900_def)
  have a: "contourArea healthy_1000 = 1000" "contourArea noisy_900 = 900"
    by (simp_all add: healthy_1000_def noisy_900_def)
  have prem: ?prem
    by (simp add: d p a)
  from tooth_matching_selects_minimum[OF h, of ?cs healthy_1000]
  have "?prem \<longrightarrow> find_most_similar_tooth_contour_early_wear healthy_1000 ?cs 300
                    = Match 2 healthy_1000"
    by blast
  with prem show ?thesis by (rule rev_mp)
qed

text \<open>
  A candidate identical to the healthy contour is not selected when its area is outside
  the band: with a healthy area of 6000 the smaller, differently shaped candidate wins.
\<close>

theorem tooth_matching_rejects_exact_copy_outside_band:
  "find_most_similar_tooth_contour_early_wear healthy_6000
      [(1, healthy_6000), (2, worn_4000)] 300 = Match 2 worn_4000"
proof -
  have d: "centroid_distance healthy_6000 worn_4000 = 0"
    by (simp add: centroid_distance_def calculate_contour_centroid_def healthy_6000_def
        worn_4000_def)
  have a: "contourArea healthy_6000 = 6000" "contourArea worn_4000 = 4000"
    "arcLength healthy_6000 = 320" "arcLength worn_4000 = 260"
    by (simp_all add: healthy_6000_def worn_4000_def)
  have s1: "match_step healthy_6000 300 (1, healthy_6000) (PosInf, None) = (PosInf, None)"
    by (simp add: match_step_def a)
  have s2: "match_step healthy_6000 300 (2, worn_4000) (PosInf, None)
      = (Float (0.5 * (2000 / 6000) + 0.3 * (60 / 320)), Some (2, worn_4000))"
    by (simp add: match_step_def a d np_true_divide_def Let_def)
  show ?thesis
    by (simp add: find_most_similar_tooth_contour_early_wear_def s1 s2)
qed

section \<open>Tooth segmentation: proofs\<close>

lemma gear_sorted: "sort_key fst gear_with_missing_tooth = gear_with_missing_tooth"
proof -
  have "sorted_wrt (\<lambda>x y. real x * (360 / 35) \<le> real y * (360 / 35)) [1..<34]"
    using sorted_upt[of 1 34] by (rule sorted_wrt_mono_rel[rotated]) simp
  then have "sorted (map (\<lambda>k. real k * (360 / 35)) [1..<34])"
    by (simp add: sorted_wrt_map)
  moreover have "\<forall>k \<in> set [1..<34]. 2 \<le> real k * (360 / 35)" 
    by auto
  ultimately have "sorted (map fst gear_with_missing_tooth)"
    by (auto simp: gear_with_missing_tooth_def comp_def)
  then show ?thesis by (rule sort_key_id_if_sorted)
qed

lemma pick33:
  "py_min_by (\<lambda>x. \<bar>fst x - real 33 * (360 / 35)\<bar>) (0, 0::nat, 1200::real)
     ((1, 100, 60) # (2, 101, 60) # map (\<lambda>k. (real k * (360 / 35), k, 1200)) [1..<34])
   = (real 33 * (360 / 35), 33, 1200)"
  by code_simp

lemma pick34:
  "py_min_by (\<lambda>x. \<bar>fst x - real 34 * (360 / 35)\<bar>) (0, 0::nat, 1200::real)
     ((1, 100, 60) # (2, 101, 60) # map (\<lambda>k. (real k * (360 / 35), k, 1200)) [1..<34])
   = (real 33 * (360 / 35), 33, 1200)"
  by code_simp

lemma length_number_teeth [simp]: "length (number_teeth xs) = length xs"
  by (simp add: number_teeth_def)

lemma number_teeth_nth:
  "i < length xs \<Longrightarrow> number_teeth xs ! i = (int i + 1, fst (snd (xs ! i)))"
  by (simp add: number_teeth_def nth_enumerate_eq split: prod.splits)

lemma number_teeth_numbers: "map fst (number_teeth xs) = map int [1..<Suc (length xs)]"
proof (rule nth_equalityI)
  show "length (map fst (number_teeth xs)) = length (map int [1..<Suc (length xs)])"
    by (simp del: upt_Suc)
next
  fix i assume "i < length (map fst (number_teeth xs))"
  then have i: "i < length xs" by simp
  then show "map fst (number_teeth xs) ! i = map int [1..<Suc (length xs)] ! i"
    by (simp add: number_teeth_nth nth_upt del: upt_Suc)
qed

lemma number_teeth_contours: "map snd (number_teeth xs) = map (\<lambda>x. fst (snd x)) xs"
  by (rule nth_equalityI) (simp_all add: number_teeth_nth)

text \<open>
  Claim C5, on \<open>extract_teeth_contours_improved\<close>. With 36 candidates (34 detected
  teeth and two specks) the slot selection returns 35 entries, but the slots 34 and 35
  are both filled with the contour of tooth 34 (contour 33): the nearest candidate of
  the last ideal slot, at 349.7 degrees, is again the tooth at 339.4 degrees. The indices
  are not occupied by different contours.
\<close>

theorem slot_selection_repeats_a_contour:
  "length (extract_teeth_contours_improved gear_with_missing_tooth) = 35 \<and>
   extract_teeth_contours_improved gear_with_missing_tooth ! 33 = (34, 33) \<and>
   extract_teeth_contours_improved gear_with_missing_tooth ! 34 = (35, 33)"
proof -
  let ?others = "(1, 100, 60) # (2, 101, 60) #
     map (\<lambda>k. (real k * (360 / 35), k, 1200)) [1..<34] :: (real \<times> nat \<times> real) list"
  let ?pick = "\<lambda>i. py_min_by (\<lambda>x. \<bar>fst x - real i * (360 / 35)\<bar>) (0, 0::nat, 1200::real) ?others"
  have sel: "select_closest_to_ideal_slots gear_with_missing_tooth = map ?pick [0..<35]"
    by (simp add: select_closest_to_ideal_slots_def gear_with_missing_tooth_def
        EXPECTED_TOOTH_COUNT_def Let_def del: upt_Suc)
  have ex: "extract_teeth_contours_improved gear_with_missing_tooth
      = number_teeth (map ?pick [0..<35])"
    unfolding extract_teeth_contours_improved_def gear_sorted sel
    by (simp add: gear_with_missing_tooth_def)
  have "number_teeth (map ?pick [0..<35]) ! 33 = (34, fst (snd (?pick 33)))"
    by (subst number_teeth_nth) (simp_all del: upt_Suc)
  moreover have "number_teeth (map ?pick [0..<35]) ! 34 = (35, fst (snd (?pick 34)))"
    by (subst number_teeth_nth) (simp_all del: upt_Suc)
  ultimately show ?thesis
    unfolding ex using pick33 pick34 by (simp del: upt_Suc)
qed

lemma py_min_by_member: "py_min_by key best xs \<in> set (best # xs)"
  by (induction xs arbitrary: best) auto

lemma distinct_map_sort_key:
  "distinct (map f (sort_key g xs)) = distinct (map f xs)"
  by (simp add: distinct_map)

text \<open>
  Keeping the largest areas (\<open>extract_teeth_from_gear_image\<close>) does give one contour
  per index: with more candidates than expected and no contour listed twice, the result
  numbers exactly \<open>EXPECTED_TOOTH_COUNT\<close> different contours 1, 2, ... in ascending
  angle.
\<close>

lemma keep_largest_one_contour_per_index:
  fixes teeth_with_angles :: "(real \<times> 'c \<times> real) list"
  assumes "length teeth_with_angles > EXPECTED_TOOTH_COUNT"
    and "distinct (map (\<lambda>x. fst (snd x)) teeth_with_angles)"
  shows "\<exists>kept. extract_teeth_from_gear_image teeth_with_angles = number_teeth kept \<and>
           length kept = EXPECTED_TOOTH_COUNT \<and> set kept \<subseteq> set teeth_with_angles \<and>
           sorted (map fst kept) \<and>
           map fst (extract_teeth_from_gear_image teeth_with_angles)
             = map int [1..<Suc EXPECTED_TOOTH_COUNT] \<and>
           distinct (map snd (extract_teeth_from_gear_image teeth_with_angles))"
proof -
  let ?s = "sort_key fst teeth_with_angles"
  let ?kept = "sort_key fst (take EXPECTED_TOOTH_COUNT (sort_key (\<lambda>x. - snd (snd x)) ?s))"
  have ne: "teeth_with_angles \<noteq> []" using assms(1) by auto
  have k: "keep_largest_by_area ?s = ?kept"
    using assms(1) by (simp add: keep_largest_by_area_def)
  have ex: "extract_teeth_from_gear_image teeth_with_angles = number_teeth ?kept"
    using ne by (simp add: extract_teeth_from_gear_image_def k)
  have len: "length ?kept = EXPECTED_TOOTH_COUNT" using assms(1) by simp
  have sub: "set ?kept \<subseteq> set teeth_with_angles"
    using set_take_subset[of EXPECTED_TOOTH_COUNT "sort_key (\<lambda>x. - snd (snd x)) ?s"] by simp
  have srt: "sorted (map fst ?kept)" by simp
  have "distinct (map (\<lambda>x. fst (snd x)) (sort_key (\<lambda>x. - snd (snd x)) ?s))"
    using assms(2) by (simp only: distinct_map_sort_key)
  then have "distinct (take EXPECTED_TOOTH_COUNT (map (\<lambda>x. fst (snd x)) (sort_key (\<lambda>x. - snd (snd x)) ?s)))"
    by (rule distinct_take)
  then have "distinct (map (\<lambda>x. fst (snd x)) (take EXPECTED_TOOTH_COUNT (sort_key (\<lambda>x. - snd (snd x)) ?s)))"
    by (simp only: take_map)
  then have dis: "distinct (map (\<lambda>x. fst (snd x)) ?kept)"
    by (simp only: distinct_map_sort_key)
  have nums: "map fst (number_teeth ?kept) = map int [1..<Suc EXPECTED_TOOTH_COUNT]"
    unfolding number_teeth_numbers len ..
  from ex len sub srt dis nums show ?thesis
    by (intro exI[of _ ?kept]) (simp only: number_teeth_contours simp_thms)
qed

text \<open>
  The slot selection always returns \<open>EXPECTED_TOOTH_COUNT\<close> entries numbered 1, 2, ...,
  each a candidate; nothing makes them different from each other.
\<close>

lemma slot_selection_fills_every_index:
  fixes teeth_with_angles :: "(real \<times> 'c \<times> real) list"
  assumes "length teeth_with_angles > EXPECTED_TOOTH_COUNT"
  shows "length (extract_teeth_contours_improved teeth_with_angles) = EXPECTED_TOOTH_COUNT \<and>
         map fst (extract_teeth_contours_improved teeth_with_angles)
           = map int [1..<Suc EXPECTED_TOOTH_COUNT] \<and>
         set (map snd (extract_teeth_contours_improved teeth_with_angles))
           \<subseteq> set (map (\<lambda>x. fst (snd x)) teeth_with_angles)"
proof -
  let ?s = "sort_key fst teeth_with_angles"
  have ne: "teeth_with_angles \<noteq> []" using assms by auto
  have l: "length ?s > EXPECTED_TOOTH_COUNT" using assms by simp
  then obtain first others where s: "?s = first # others" by (cases ?s) auto
  let ?sel = "select_closest_to_ideal_slots ?s"
  have sel: "?sel = map (\<lambda>i. py_min_by (\<lambda>x. \<bar>fst x - real i * (360.0 / real EXPECTED_TOOTH_COUNT)\<bar>)
                     first others) [0..<EXPECTED_TOOTH_COUNT]"
    using l unfolding select_closest_to_ideal_slots_def s by (simp add: Let_def)
  have len: "length ?sel = EXPECTED_TOOTH_COUNT" unfolding sel by simp
  have "set ?sel \<subseteq> set (first # others)"
    unfolding sel set_map by (rule image_subsetI) (rule py_min_by_member)
  then have sub: "set ?sel \<subseteq> set teeth_with_angles"
    using s set_sort[of fst teeth_with_angles] by simp
  have ex: "extract_teeth_contours_improved teeth_with_angles = number_teeth ?sel"
    using ne by (simp add: extract_teeth_contours_improved_def)
  have "map fst (number_teeth ?sel) = map int [1..<Suc EXPECTED_TOOTH_COUNT]"
    unfolding number_teeth_numbers len ..
  moreover have "set (map snd (number_teeth ?sel)) \<subseteq> set (map (\<lambda>x. fst (snd x)) teeth_with_angles)"
    unfolding number_teeth_contours using sub by auto
  ultimately show ?thesis unfolding ex using len by simp
qed

section \<open>The table-format CSV: proofs\<close>




















end
